theory Spec2Isabelle
  imports Main
begin

section \<open>JavaScript values\<close>

text \<open>
  The storage service handles room records as plain JavaScript values: whatever
  \<^verbatim>\<open>JSON.parse\<close> returns, whatever the realtime database delivers, whatever a caller
  passes. The TypeScript annotations (\<^verbatim>\<open>ChatRoom\<close>, \<^verbatim>\<open>Message\<close>, \<^verbatim>\<open>Memo\<close>) are erased at run time,
  so the model keeps the untyped values. An object is the list of its properties in
  enumeration order. Numbers are the integers (time stamps); the code does no arithmetic
  on stored numbers.
\<close>

datatype jsval =
    JUndefined
  | JNull
  | JBool bool
  | JNum int
  | JStr string
  | JArr "jsval list"
  | JObj "(string \<times> jsval) list"

datatype error =
    TypeError
  | SyntaxError
  | RemoteError string

text \<open>The truth value of a value in a condition (\<^verbatim>\<open>if (x)\<close>, \<^verbatim>\<open>!x\<close>, \<^verbatim>\<open>x ? a : b\<close>).\<close>

fun truthy :: "jsval \<Rightarrow> bool" where
  "truthy JUndefined = False"
| "truthy JNull = False"
| "truthy (JBool b) = b"
| "truthy (JNum n) = (n \<noteq> 0)"
| "truthy (JStr s) = (s \<noteq> [])"
| "truthy (JArr xs) = True"
| "truthy (JObj kvs) = True"

text \<open>
  Reading a property \<^verbatim>\<open>v.k\<close>. On \<^verbatim>\<open>null\<close> and \<^verbatim>\<open>undefined\<close> it raises a TypeError; on an
  object it yields the property or \<^verbatim>\<open>undefined\<close>. The names the code reads (id, title,
  messages, memos, apiKey, projectId, databaseURL) are not properties of numbers,
  booleans, strings or arrays, so the reading yields \<^verbatim>\<open>undefined\<close> there.
\<close>

fun read_prop :: "string \<Rightarrow> jsval \<Rightarrow> error + jsval" where
  "read_prop k JUndefined = Inl TypeError"
| "read_prop k JNull = Inl TypeError"
| "read_prop k (JObj kvs) = Inr (case map_of kvs k of None \<Rightarrow> JUndefined | Some v \<Rightarrow> v)"
| "read_prop k v = Inr JUndefined"

text \<open>The same reading on a value known to be an object.\<close>

definition obj_prop :: "string \<Rightarrow> (string \<times> jsval) list \<Rightarrow> jsval" where
  "obj_prop k kvs = (case map_of kvs k of None \<Rightarrow> JUndefined | Some v \<Rightarrow> v)"

text \<open>
  Assigning a property \<^verbatim>\<open>o.k = v\<close> on an object: an existing property keeps its place,
  a new one is added at the end.
\<close>

fun assign :: "string \<Rightarrow> jsval \<Rightarrow> (string \<times> jsval) list \<Rightarrow> (string \<times> jsval) list" where
  "assign k v [] = [(k, v)]"
| "assign k v ((k', v') # kvs) = (if k' = k then (k, v) # kvs else (k', v') # assign k v kvs)"

text \<open>Strict equality \<^verbatim>\<open>a === b\<close>: by value on primitives, by reference on arrays and
  objects, so that two values read from different places are never equal there.\<close>

fun strict_eq :: "jsval \<Rightarrow> jsval \<Rightarrow> bool" where
  "strict_eq JUndefined JUndefined = True"
| "strict_eq JNull JNull = True"
| "strict_eq (JBool a) (JBool b) = (a = b)"
| "strict_eq (JNum a) (JNum b) = (a = b)"
| "strict_eq (JStr a) (JStr b) = (a = b)"
| "strict_eq a b = False"

text \<open>Decimal digits of a number, for \<^verbatim>\<open>String(n)\<close> and template literals.\<close>

fun dec :: "nat \<Rightarrow> string" where
  "dec n = (if n < 10 then [''0123456789'' ! n] else dec (n div 10) @ [''0123456789'' ! (n mod 10)])"

definition dec_int :: "int \<Rightarrow> string" where
  "dec_int i = (if i < 0 then CHR ''-'' # dec (nat (- i)) else dec (nat i))"

fun join :: "string \<Rightarrow> string list \<Rightarrow> string" where
  "join sep [] = []"
| "join sep [s] = s"
| "join sep (s # t # ss) = s @ sep @ join sep (t # ss)"

text \<open>\<^verbatim>\<open>String(v)\<close>, also what a template literal makes of \<^verbatim>\<open>${v}\<close>.\<close>

fun to_str :: "jsval \<Rightarrow> string" where
  "to_str JUndefined = ''undefined''"
| "to_str JNull = ''null''"
| "to_str (JBool b) = (if b then ''true'' else ''false'')"
| "to_str (JNum n) = dec_int n"
| "to_str (JStr s) = s"
| "to_str (JArr xs) =
     join '','' (map (\<lambda>x. if x = JUndefined \<or> x = JNull then [] else to_str x) xs)"
| "to_str (JObj kvs) = ''[object Object]''"

text \<open>
  \<^verbatim>\<open>Object.values(v)\<close>: the property values of an object, the elements of an array, the
  characters of a string, nothing for a number or a boolean, a TypeError for \<^verbatim>\<open>null\<close>
  and \<^verbatim>\<open>undefined\<close>.
\<close>

fun Object_values :: "jsval \<Rightarrow> error + jsval list" where
  "Object_values JUndefined = Inl TypeError"
| "Object_values JNull = Inl TypeError"
| "Object_values (JObj kvs) = Inr (map snd kvs)"
| "Object_values (JArr xs) = Inr xs"
| "Object_values (JStr s) = Inr (map (\<lambda>c. JStr [c]) s)"
| "Object_values v = Inr []"

text \<open>
  \<^verbatim>\<open>JSON.parse(JSON.stringify(v))\<close> on a defined value: a property whose value is
  \<^verbatim>\<open>undefined\<close> is dropped, an \<^verbatim>\<open>undefined\<close> array element becomes \<^verbatim>\<open>null\<close>. The code
  clones arrays and objects only.
\<close>

fun sanitize :: "jsval \<Rightarrow> jsval" where
  "sanitize (JArr xs) = JArr (map (\<lambda>x. if x = JUndefined then JNull else sanitize x) xs)"
| "sanitize (JObj kvs) =
     JObj (map (\<lambda>kv. (fst kv, sanitize (snd kv))) (filter (\<lambda>kv. snd kv \<noteq> JUndefined) kvs))"
| "sanitize v = v"

section \<open>Texts and local storage\<close>

text \<open>
  A text, by what \<^verbatim>\<open>JSON.parse\<close> makes of it: the empty text and a malformed text are
  rejected with a SyntaxError, the JSON text of a value yields the value.
  \<^verbatim>\<open>JSON.stringify(v)\<close> of a defined value is the JSON text of its clone.
\<close>

datatype json_text = EmptyText | BadText | JsonText jsval

fun JSON_parse :: "json_text \<Rightarrow> error + jsval" where
  "JSON_parse EmptyText = Inl SyntaxError"
| "JSON_parse BadText = Inl SyntaxError"
| "JSON_parse (JsonText v) = Inr v"

definition JSON_stringify :: "jsval \<Rightarrow> json_text" where
  "JSON_stringify v = JsonText (sanitize v)"

text \<open>The item under \<^verbatim>\<open>ROOMS_KEY\<close>: \<^verbatim>\<open>getItem\<close> returns \<^verbatim>\<open>null\<close> or the stored text.\<close>

type_synonym stored = "json_text option"

text \<open>\<^verbatim>\<open>stored ? JSON.parse(stored) : []\<close>; the empty text is falsy.\<close>

fun parse_stored :: "stored \<Rightarrow> error + jsval" where
  "parse_stored None = Inr (JArr [])"
| "parse_stored (Some EmptyText) = Inr (JArr [])"
| "parse_stored (Some t) = JSON_parse t"

text \<open>\<^verbatim>\<open>getLocalRooms\<close>: the same reading inside \<^verbatim>\<open>try\<close>; the \<^verbatim>\<open>catch\<close> returns the empty array.\<close>

definition getLocalRooms :: "stored \<Rightarrow> jsval" where
  "getLocalRooms s = (case parse_stored s of Inl e \<Rightarrow> JArr [] | Inr v \<Rightarrow> v)"

text \<open>The properties that \<^verbatim>\<open>JSON.stringify\<close> keeps of an object, each one cloned.\<close>

definition sanitize_props :: "(string \<times> jsval) list \<Rightarrow> (string \<times> jsval) list" where
  "sanitize_props kvs =
     map (\<lambda>kv. (fst kv, sanitize (snd kv))) (filter (\<lambda>kv. snd kv \<noteq> JUndefined) kvs)"

text \<open>A value is JSON data when the clone is the value itself: no \<^verbatim>\<open>undefined\<close> inside.\<close>

definition is_json :: "jsval \<Rightarrow> bool" where
  "is_json v = (v \<noteq> JUndefined \<and> sanitize v = v)"

text \<open>The stored item holds JSON data: what \<^verbatim>\<open>JSON.parse\<close> yields of a text has no
  \<^verbatim>\<open>undefined\<close> inside.\<close>

definition json_item :: "stored \<Rightarrow> bool" where
  "json_item s = (case s of Some (JsonText v) \<Rightarrow> is_json v | t \<Rightarrow> True)"

section \<open>The two backends\<close>

text \<open>
  The state the service works on. \<^verbatim>\<open>cloudEnabled\<close> is the test \<^verbatim>\<open>isCloudEnabled && db\<close>,
  fixed at start-up. \<^verbatim>\<open>localItem\<close> is the item under \<^verbatim>\<open>ROOMS_KEY\<close>. \<^verbatim>\<open>remoteRooms\<close> is the
  remote node \<^verbatim>\<open>rooms\<close>: one child per room, addressed by its path \<^verbatim>\<open>rooms/<id>\<close>, each child
  the object last written there; identifiers are taken as database keys (one path segment).
  \<^verbatim>\<open>console\<close> collects what \<^verbatim>\<open>console.error\<close> prints, \<^verbatim>\<open>unhandled\<close> the rejections of promises
  that no caller awaits, \<^verbatim>\<open>notifications\<close> counts the calls of \<^verbatim>\<open>notifyLocalChanges\<close>.
\<close>

record world =
  cloudEnabled :: bool
  localItem :: stored
  remoteRooms :: "(string \<times> (string \<times> jsval) list) list"
  console :: "error list"
  unhandled :: "error list"
  notifications :: nat

text \<open>
  The remote primitives, when the backend accepts the request: \<^verbatim>\<open>set\<close> replaces the child,
  \<^verbatim>\<open>remove\<close> deletes it, \<^verbatim>\<open>runTransaction\<close> replaces the child by what the update function
  makes of its current value (\<^verbatim>\<open>null\<close> when there is none) in one atomic step; what the
  update function raises is raised by the call.
\<close>

fun remote_set :: "string \<Rightarrow> 'v \<Rightarrow> (string \<times> 'v) list \<Rightarrow> (string \<times> 'v) list" where
  "remote_set k v [] = [(k, v)]"
| "remote_set k v ((k', v') # kvs) =
     (if k' = k then (k, v) # kvs else (k', v') # remote_set k v kvs)"

definition remote_remove :: "string \<Rightarrow> (string \<times> 'v) list \<Rightarrow> (string \<times> 'v) list" where
  "remote_remove k kvs = filter (\<lambda>kv. fst kv \<noteq> k) kvs"

definition remote_transaction ::
  "string \<Rightarrow> ('v option \<Rightarrow> error + 'v option) \<Rightarrow> (string \<times> 'v) list \<Rightarrow>
   error + (string \<times> 'v) list" where
  "remote_transaction k update kvs =
     (case update (map_of kvs k) of
        Inl e \<Rightarrow> Inl e
      | Inr None \<Rightarrow> Inr (remote_remove k kvs)
      | Inr (Some v) \<Rightarrow> Inr (remote_set k v kvs))"

text \<open>A promise that the caller neither awaits nor returns: the caller goes on, and a
  rejection is left unhandled.\<close>

definition detached :: "(error + unit) \<times> world \<Rightarrow> world" where
  "detached r =
     (case fst r of
        Inl e \<Rightarrow> (snd r)\<lparr>unhandled := unhandled (snd r) @ [e]\<rparr>
      | Inr u \<Rightarrow> snd r)"

text \<open>\<^verbatim>\<open>rooms.findIndex((r) => r.id === id)\<close> on the elements of an array: the index of the
  first match; reading \<^verbatim>\<open>r.id\<close> raises on a \<^verbatim>\<open>null\<close> element met before it.\<close>

fun findIndex_id :: "jsval \<Rightarrow> jsval list \<Rightarrow> error + nat option" where
  "findIndex_id i [] = Inr None"
| "findIndex_id i (r # rs) =
     (case read_prop ''id'' r of
        Inl e \<Rightarrow> Inl e
      | Inr j \<Rightarrow>
          if strict_eq j i then Inr (Some 0)
          else (case findIndex_id i rs of
                  Inl e \<Rightarrow> Inl e
                | Inr None \<Rightarrow> Inr None
                | Inr (Some n) \<Rightarrow> Inr (Some (Suc n))))"

text \<open>\<^verbatim>\<open>rooms.find((r) => r.id === id)\<close>: the first match itself.\<close>

fun find_id :: "jsval \<Rightarrow> jsval list \<Rightarrow> error + jsval option" where
  "find_id i [] = Inr None"
| "find_id i (r # rs) =
     (case read_prop ''id'' r of
        Inl e \<Rightarrow> Inl e
      | Inr j \<Rightarrow> if strict_eq j i then Inr (Some r) else find_id i rs)"

text \<open>The local branch of \<^verbatim>\<open>saveRoom\<close> on the value read by \<^verbatim>\<open>getLocalRooms\<close>: replace the
  room with the same identifier or push the room. A value that is no array has no
  \<^verbatim>\<open>findIndex\<close>.\<close>

fun local_upsert :: "(string \<times> jsval) list \<Rightarrow> jsval \<Rightarrow> error + jsval list" where
  "local_upsert room (JArr rooms) =
     (case findIndex_id (obj_prop ''id'' room) rooms of
        Inl e \<Rightarrow> Inl e
      | Inr (Some existingIndex) \<Rightarrow> Inr (rooms[existingIndex := JObj room])
      | Inr None \<Rightarrow> Inr (rooms @ [JObj room]))"
| "local_upsert room v = Inl TypeError"

text \<open>
  \<^verbatim>\<open>saveRoom\<close>. \<^verbatim>\<open>resp\<close> is the backend's answer to the \<^verbatim>\<open>set\<close> request: \<^verbatim>\<open>None\<close> when it
  accepts, the error when it rejects. In cloud mode a rejection is printed and thrown
  again. In local mode the function body has no \<^verbatim>\<open>await\<close>: it runs to its end at the call.
\<close>

definition saveRoom :: "error option \<Rightarrow> (string \<times> jsval) list \<Rightarrow> world \<Rightarrow> (error + unit) \<times> world" where
  "saveRoom resp room w =
     (if cloudEnabled w then
        (case resp of
           Some e \<Rightarrow> (Inl e, w\<lparr>console := console w @ [e]\<rparr>)
         | None \<Rightarrow>
             (Inr (), w\<lparr>remoteRooms :=
                remote_set (''rooms/'' @ to_str (obj_prop ''id'' room)) (sanitize_props room)
                  (remoteRooms w)\<rparr>))
      else
        (case local_upsert room (getLocalRooms (localItem w)) of
           Inl e \<Rightarrow> (Inl e, w)
         | Inr rooms \<Rightarrow>
             (Inr (), w\<lparr>localItem := Some (JSON_stringify (JArr rooms)),
                        notifications := Suc (notifications w)\<rparr>)))"

text \<open>\<^verbatim>\<open>rooms.filter((r) => String(r.id) !== String(roomId))\<close>\<close>

fun filter_rooms :: "string \<Rightarrow> jsval list \<Rightarrow> error + jsval list" where
  "filter_rooms roomId [] = Inr []"
| "filter_rooms roomId (r # rs) =
     (case read_prop ''id'' r of
        Inl e \<Rightarrow> Inl e
      | Inr j \<Rightarrow>
          (case filter_rooms roomId rs of
             Inl e \<Rightarrow> Inl e
           | Inr rs' \<Rightarrow> Inr (if to_str j \<noteq> roomId then r # rs' else rs')))"

fun local_delete :: "string \<Rightarrow> jsval \<Rightarrow> error + jsval list" where
  "local_delete roomId (JArr rooms) = filter_rooms roomId rooms"
| "local_delete roomId v = Inl TypeError"

text \<open>\<^verbatim>\<open>deleteRoom\<close>, with the backend's answer to the \<^verbatim>\<open>remove\<close> request.\<close>

definition deleteRoom :: "error option \<Rightarrow> string \<Rightarrow> world \<Rightarrow> (error + unit) \<times> world" where
  "deleteRoom resp roomId w =
     (if cloudEnabled w then
        (case resp of
           Some e \<Rightarrow> (Inl e, w\<lparr>console := console w @ [e]\<rparr>)
         | None \<Rightarrow>
             (Inr (), w\<lparr>remoteRooms := remote_remove (''rooms/'' @ roomId) (remoteRooms w)\<rparr>))
      else
        (case local_delete roomId (getLocalRooms (localItem w)) of
           Inl e \<Rightarrow> (Inl e, w)
         | Inr updatedRooms \<Rightarrow>
             (Inr (), w\<lparr>localItem := Some (JSON_stringify (JArr updatedRooms)),
                        notifications := Suc (notifications w)\<rparr>)))"

text \<open>The test of \<^verbatim>\<open>deleteRoom\<close> on a stored record: \<^verbatim>\<open>String(r.id)\<close> is the identifier.\<close>

definition has_id :: "string \<Rightarrow> jsval \<Rightarrow> bool" where
  "has_id roomId r = (case read_prop ''id'' r of Inl e \<Rightarrow> False | Inr j \<Rightarrow> to_str j = roomId)"

text \<open>The elements of a stored collection are records: none is \<^verbatim>\<open>null\<close>.\<close>

definition records :: "jsval list \<Rightarrow> bool" where
  "records rooms = (\<forall>r\<in>set rooms. r \<noteq> JNull \<and> r \<noteq> JUndefined)"

section \<open>Messages and memos\<close>

text \<open>
  The update function that \<^verbatim>\<open>addMessage\<close> and \<^verbatim>\<open>addMemo\<close> hand to \<^verbatim>\<open>runTransaction\<close>, for
  the property \<^verbatim>\<open>f\<close> (\<^verbatim>\<open>messages\<close> or \<^verbatim>\<open>memos\<close>): \<^verbatim>\<open>null\<close> is returned as it is; on a room a
  falsy property becomes the empty array, a property that is no array is replaced by
  its \<^verbatim>\<open>Object.values\<close>, and the item is pushed.
\<close>

definition push_update ::
  "string \<Rightarrow> jsval \<Rightarrow> (string \<times> jsval) list option \<Rightarrow> error + (string \<times> jsval) list option" where
  "push_update f item room =
     (case room of
        None \<Rightarrow> Inr None
      | Some kvs \<Rightarrow>
          (let kvs1 = (if \<not> truthy (obj_prop f kvs) then assign f (JArr []) kvs else kvs) in
           case (case obj_prop f kvs1 of JArr xs \<Rightarrow> Inr xs | v \<Rightarrow> Object_values v) of
             Inl e \<Rightarrow> Inl e
           | Inr xs \<Rightarrow> Inr (Some (assign f (JArr (xs @ [item])) kvs1))))"

text \<open>The items that the update function finds in the property \<^verbatim>\<open>f\<close> of a room: those of
  an array, the values of a key-indexed mapping, none when the property is missing.\<close>

definition as_sequence :: "string \<Rightarrow> (string \<times> jsval) list \<Rightarrow> jsval list" where
  "as_sequence f kvs =
     (case obj_prop f kvs of
        JArr xs \<Rightarrow> xs
      | JObj ps \<Rightarrow> map snd ps
      | JStr s \<Rightarrow> map (\<lambda>c. JStr [c]) s
      | v \<Rightarrow> [])"

text \<open>\<^verbatim>\<open>memos.filter((m) => m.id !== memoId)\<close>\<close>

fun filter_memos :: "string \<Rightarrow> jsval list \<Rightarrow> error + jsval list" where
  "filter_memos memoId [] = Inr []"
| "filter_memos memoId (m # ms) =
     (case read_prop ''id'' m of
        Inl e \<Rightarrow> Inl e
      | Inr j \<Rightarrow>
          (case filter_memos memoId ms of
             Inl e \<Rightarrow> Inl e
           | Inr ms' \<Rightarrow> Inr (if \<not> strict_eq j (JStr memoId) then m # ms' else ms')))"

text \<open>The update function of \<^verbatim>\<open>deleteMemo\<close>: a room with a falsy \<^verbatim>\<open>memos\<close> is returned as
  it is.\<close>

definition drop_update ::
  "string \<Rightarrow> (string \<times> jsval) list option \<Rightarrow> error + (string \<times> jsval) list option" where
  "drop_update memoId room =
     (case room of
        None \<Rightarrow> Inr None
      | Some kvs \<Rightarrow>
          if \<not> truthy (obj_prop ''memos'' kvs) then Inr (Some kvs)
          else
            (case (case obj_prop ''memos'' kvs of JArr xs \<Rightarrow> Inr xs | v \<Rightarrow> Object_values v) of
               Inl e \<Rightarrow> Inl e
             | Inr xs \<Rightarrow>
                 (case filter_memos memoId xs of
                    Inl e \<Rightarrow> Inl e
                  | Inr ms \<Rightarrow> Inr (Some (assign ''memos'' (JArr ms) kvs)))))"

text \<open>
  The cloud branch of the three operations: \<^verbatim>\<open>runTransaction(ref(db, path), update)\<close>, its
  promise dropped. The update function runs at the call, so what it raises reaches the
  caller; a rejection by the backend reaches nobody. An accepted transaction replaces
  the child by the update of its current value, in one step.
\<close>

definition cloud_transaction ::
  "error option \<Rightarrow> string \<Rightarrow>
   ((string \<times> jsval) list option \<Rightarrow> error + (string \<times> jsval) list option) \<Rightarrow>
   world \<Rightarrow> (error + unit) \<times> world" where
  "cloud_transaction resp roomId update w =
     (case remote_transaction (''rooms/'' @ roomId) update (remoteRooms w) of
        Inl e \<Rightarrow> (Inl e, w)
      | Inr rooms \<Rightarrow>
          (case resp of
             Some e \<Rightarrow> (Inr (), w\<lparr>unhandled := unhandled w @ [e]\<rparr>)
           | None \<Rightarrow> (Inr (), w\<lparr>remoteRooms := rooms\<rparr>)))"

text \<open>
  The local branch of the three operations: \<^verbatim>\<open>rooms.find((r) => r.id === roomId)\<close> on the
  stored rooms and, when a (truthy) room is found, the change of the room followed by
  \<^verbatim>\<open>saveRoom(room)\<close>, which is not awaited.
\<close>

definition local_change ::
  "string \<Rightarrow> (jsval \<Rightarrow> error + (string \<times> jsval) list) \<Rightarrow> world \<Rightarrow> (error + unit) \<times> world" where
  "local_change roomId change w =
     (case getLocalRooms (localItem w) of
        JArr rooms \<Rightarrow>
          (case find_id (JStr roomId) rooms of
             Inl e \<Rightarrow> (Inl e, w)
           | Inr None \<Rightarrow> (Inr (), w)
           | Inr (Some room) \<Rightarrow>
               if truthy room then
                 (case change room of
                    Inl e \<Rightarrow> (Inl e, w)
                  | Inr room' \<Rightarrow> (Inr (), detached (saveRoom None room' w)))
               else (Inr (), w))
      | v \<Rightarrow> (Inl TypeError, w))"

text \<open>\<^verbatim>\<open>room.messages.push(message)\<close> and \<^verbatim>\<open>room.memos.push(memo)\<close> on the room found: the
  property has to be an array.\<close>

fun push_to :: "string \<Rightarrow> jsval \<Rightarrow> jsval \<Rightarrow> error + (string \<times> jsval) list" where
  "push_to f item (JObj kvs) =
     (case obj_prop f kvs of
        JArr xs \<Rightarrow> Inr (assign f (JArr (xs @ [item])) kvs)
      | v \<Rightarrow> Inl TypeError)"
| "push_to f item v = Inl TypeError"

text \<open>\<^verbatim>\<open>room.memos = room.memos.filter((m) => m.id !== memoId)\<close> on the room found.\<close>

fun drop_from :: "string \<Rightarrow> jsval \<Rightarrow> error + (string \<times> jsval) list" where
  "drop_from memoId (JObj kvs) =
     (case obj_prop ''memos'' kvs of
        JArr xs \<Rightarrow>
          (case filter_memos memoId xs of
             Inl e \<Rightarrow> Inl e
           | Inr ms \<Rightarrow> Inr (assign ''memos'' (JArr ms) kvs))
      | v \<Rightarrow> Inl TypeError)"
| "drop_from memoId v = Inl TypeError"

definition addMessage :: "error option \<Rightarrow> string \<Rightarrow> jsval \<Rightarrow> world \<Rightarrow> (error + unit) \<times> world" where
  "addMessage resp roomId message w =
     (if cloudEnabled w then cloud_transaction resp roomId (push_update ''messages'' message) w
      else local_change roomId (push_to ''messages'' message) w)"

definition addMemo :: "error option \<Rightarrow> string \<Rightarrow> jsval \<Rightarrow> world \<Rightarrow> (error + unit) \<times> world" where
  "addMemo resp roomId memo w =
     (if cloudEnabled w then cloud_transaction resp roomId (push_update ''memos'' memo) w
      else local_change roomId (push_to ''memos'' memo) w)"

definition deleteMemo :: "error option \<Rightarrow> string \<Rightarrow> string \<Rightarrow> world \<Rightarrow> (error + unit) \<times> world" where
  "deleteMemo resp roomId memoId w =
     (if cloudEnabled w then cloud_transaction resp roomId (drop_update memoId) w
      else local_change roomId (drop_from memoId) w)"

text \<open>The test of the three operations on a stored record: \<^verbatim>\<open>r.id === roomId\<close>.\<close>

definition is_room :: "string \<Rightarrow> jsval \<Rightarrow> bool" where
  "is_room roomId r =
     (case read_prop ''id'' r of Inl e \<Rightarrow> False | Inr j \<Rightarrow> strict_eq j (JStr roomId))"

section \<open>Transactions of several clients\<close>

text \<open>
  \<^verbatim>\<open>runTransaction\<close> step by step, as the backend runs it for two clients on one node. The
  value of the node is an object, or nothing (\<^verbatim>\<open>null\<close>). A client that has called
  \<^verbatim>\<open>runTransaction\<close> first runs its update function on the value it has in its cache,
  which may be out of date; it then holds the value it has seen and the new value it
  has computed. The backend writes the new value only while the node still has the
  value seen; otherwise the client runs the update function again, on the value the
  node has now. A client whose update function raises is finished without a write.
  The check and the rerun are the database's; the update function is the service's.
\<close>

type_synonym node = "(string \<times> jsval) list option"

datatype client = Waiting node | Computed node node | Finished

fun attempt :: "(node \<Rightarrow> error + node) \<Rightarrow> node \<Rightarrow> client" where
  "attempt update seen =
     (case update seen of
        Inl e \<Rightarrow> Finished
      | Inr new \<Rightarrow> Computed seen new)"

text \<open>
  The next move of one client, as the value of the node and the state of the client
  after it. With \<^verbatim>\<open>checked\<close> the write is the one of a transaction. Without it the new
  value is written whatever the node has become: a read followed by \<^verbatim>\<open>set\<close>.
\<close>

fun moves :: "bool \<Rightarrow> (node \<Rightarrow> error + node) \<Rightarrow> node \<Rightarrow> client \<Rightarrow> (node \<times> client) list" where
  "moves checked update v (Waiting cache) = [(v, attempt update cache)]"
| "moves checked update v (Computed seen new) =
     (if checked \<and> seen \<noteq> v then [(v, attempt update v)] else [(new, Finished)])"
| "moves checked update v Finished = []"

text \<open>The states that follow a state of the node and the two clients: one of the
  clients moves.\<close>

fun successors ::
  "bool \<Rightarrow> (node \<Rightarrow> error + node) \<Rightarrow> (node \<Rightarrow> error + node) \<Rightarrow>
   node \<times> client \<times> client \<Rightarrow> (node \<times> client \<times> client) list" where
  "successors checked u1 u2 (v, c1, c2) =
     map (\<lambda>m. (fst m, snd m, c2)) (moves checked u1 v c1) @
     map (\<lambda>m. (fst m, c1, snd m)) (moves checked u2 v c2)"

text \<open>The runs: any number of moves, in any order of the two clients.\<close>

inductive runs ::
  "bool \<Rightarrow> (node \<Rightarrow> error + node) \<Rightarrow> (node \<Rightarrow> error + node) \<Rightarrow>
   node \<times> client \<times> client \<Rightarrow> node \<times> client \<times> client \<Rightarrow> bool"
  for checked u1 u2 where
    stay: "runs checked u1 u2 s s"
  | move: "t \<in> set (successors checked u1 u2 s) \<Longrightarrow> runs checked u1 u2 t r \<Longrightarrow>
           runs checked u1 u2 s r"

code_pred runs .

text \<open>A bound on the moves that are left to a client in a transaction, given the
  value of the node.\<close>

fun weight :: "node \<Rightarrow> client \<Rightarrow> nat" where
  "weight v (Waiting cache) = 6"
| "weight v (Computed seen new) = (if seen = v then 4 else 5)"
| "weight v Finished = 0"

fun moves_left :: "node \<times> client \<times> client \<Rightarrow> nat" where
  "moves_left (v, c1, c2) = weight v c1 + weight v c2"

text \<open>
  What holds of the node and the two clients all along a run of two transactions that
  starts with the value \<^verbatim>\<open>v0\<close>: a client holds a new value that its update function makes
  of the value it has seen, and the node holds \<^verbatim>\<open>v0\<close> updated by the clients that have
  finished, one after the other.
\<close>

definition serial ::
  "(node \<Rightarrow> error + node) \<Rightarrow> (node \<Rightarrow> error + node) \<Rightarrow> node \<Rightarrow>
   node \<times> client \<times> client \<Rightarrow> bool" where
  "serial u1 u2 v0 s =
     (case s of (v, c1, c2) \<Rightarrow>
        (\<forall>seen new. c1 = Computed seen new \<longrightarrow> u1 seen = Inr new)
        \<and> (\<forall>seen new. c2 = Computed seen new \<longrightarrow> u2 seen = Inr new)
        \<and> (if c1 = Finished then
              (if c2 = Finished then
                 (\<exists>x. u1 v0 = Inr x \<and> u2 x = Inr v) \<or> (\<exists>x. u2 v0 = Inr x \<and> u1 x = Inr v)
               else u1 v0 = Inr v)
            else (if c2 = Finished then u2 v0 = Inr v else v = v0)))"

section \<open>Room lifecycle\<close>

text \<open>
  What \<^verbatim>\<open>createRoom\<close> reads from the platform: the fields of \<^verbatim>\<open>new Date()\<close>,
  \<^verbatim>\<open>crypto.randomUUID()\<close> when there is one, the three readings of \<^verbatim>\<open>Date.now()\<close> and the two
  of \<^verbatim>\<open>Math.random().toString(36)\<close>.
\<close>

record env =
  fullYear :: int
  month :: int
  date :: int
  randomUUID :: "string option"
  idClock :: int
  idRandom :: string
  messageRandom :: string
  messageClock :: int
  createdClock :: int

text \<open>Modelled from the spec: the role tag of a message (admin or participant), declared
  in \<^verbatim>\<open>types.ts\<close>, which is not among the sources.\<close>

datatype UserRole = ADMIN | PARTICIPANT

fun role_value :: "UserRole \<Rightarrow> jsval" where
  "role_value ADMIN = JStr ''ADMIN''"
| "role_value PARTICIPANT = JStr ''PARTICIPANT''"

text \<open>The date line of the first message: year, month and day, each followed by its
  Korean counter word (in UTF-8).\<close>

definition dateText :: "env \<Rightarrow> string" where
  "dateText now =
     dec_int (fullYear now) @ [CHR 0xEB, CHR 0x85, CHR 0x84] @ '' '' @
     dec_int (month now + 1) @ [CHR 0xEC, CHR 0x9B, CHR 0x94] @ '' '' @
     dec_int (date now) @ [CHR 0xEC, CHR 0x9D, CHR 0xBC]"

definition uniqueId :: "env \<Rightarrow> string" where
  "uniqueId e =
     (case randomUUID e of
        Some uuid \<Rightarrow> uuid
      | None \<Rightarrow> ''room_'' @ dec_int (idClock e) @ ''_'' @ take 7 (drop 2 (idRandom e)))"

definition newRoom :: "env \<Rightarrow> string \<Rightarrow> string option \<Rightarrow> (string \<times> jsval) list" where
  "newRoom e title password =
     [(''id'', JStr (uniqueId e)),
      (''title'', JStr title),
      (''password'', (case password of None \<Rightarrow> JUndefined | Some p \<Rightarrow> JStr p)),
      (''messages'',
         JArr [JObj [(''id'', JStr (messageRandom e)),
                     (''senderName'', JStr ''System''),
                     (''role'', role_value ADMIN),
                     (''text'', JStr (dateText e)),
                     (''timestamp'', JNum (messageClock e)),
                     (''type'', JStr ''system'')]]),
      (''memos'', JArr []),
      (''createdAt'', JNum (createdClock e)),
      (''createdBy'', JStr ''AI Bot'')]"

text \<open>\<^verbatim>\<open>createRoom\<close> awaits \<^verbatim>\<open>saveRoom\<close>: a failed write is the failure of \<^verbatim>\<open>createRoom\<close>.\<close>

definition createRoom ::
  "error option \<Rightarrow> env \<Rightarrow> string \<Rightarrow> string option \<Rightarrow> world \<Rightarrow>
   (error + (string \<times> jsval) list) \<times> world" where
  "createRoom resp e title password w =
     (case saveRoom resp (newRoom e title password) w of
        (Inl err, w') \<Rightarrow> (Inl err, w')
      | (Inr u, w') \<Rightarrow> (Inr (newRoom e title password), w'))"

text \<open>
  \<^verbatim>\<open>importRoom\<close>. The test \<^verbatim>\<open>!roomData || !roomData.id || !roomData.title\<close> lets only an
  object through: \<^verbatim>\<open>null\<close> and \<^verbatim>\<open>undefined\<close> are falsy, and on a number, a boolean, a string
  or an array \<^verbatim>\<open>id\<close> is \<^verbatim>\<open>undefined\<close>. \<^verbatim>\<open>saveRoom\<close> is called and not awaited, so the \<^verbatim>\<open>catch\<close>
  never sees its failure.
\<close>

fun importRoom :: "error option \<Rightarrow> jsval \<Rightarrow> world \<Rightarrow> bool \<times> world" where
  "importRoom resp (JObj roomData) w =
     (if truthy (obj_prop ''id'' roomData) \<and> truthy (obj_prop ''title'' roomData)
      then (True, detached (saveRoom resp roomData w))
      else (False, w))"
| "importRoom resp roomData w = (False, w)"

section \<open>Export and import of a room file\<close>

text \<open>\<^verbatim>\<open>title.replace(/\s+/g, '_')\<close>: every run of white space becomes one underscore
  (the ASCII white space; the strings are byte strings).\<close>

definition is_space :: "char \<Rightarrow> bool" where
  "is_space c = (c \<in> set [CHR '' '', CHR 0x09, CHR 0x0A, CHR 0x0B, CHR 0x0C, CHR 0x0D])"

fun collapse :: "bool \<Rightarrow> string \<Rightarrow> string" where
  "collapse in_run [] = []"
| "collapse in_run (c # cs) =
     (if is_space c then (if in_run then collapse True cs else CHR ''_'' # collapse True cs)
      else c # collapse False cs)"

definition replace_spaces :: "string \<Rightarrow> string" where
  "replace_spaces title = collapse False title"

text \<open>\<^verbatim>\<open>handleExportRoom\<close>: the name and the text of the downloaded file. A title that is no
  string has no \<^verbatim>\<open>replace\<close>, and nothing is downloaded.\<close>

definition handleExportRoom :: "(string \<times> jsval) list \<Rightarrow> error + string \<times> json_text" where
  "handleExportRoom room =
     (case obj_prop ''title'' room of
        JStr title \<Rightarrow> Inr (replace_spaces title @ ''_data.json'', JSON_stringify (JObj room))
      | v \<Rightarrow> Inl TypeError)"

text \<open>\<^verbatim>\<open>reader.onload\<close> of \<^verbatim>\<open>handleFileChange\<close>: what the user is told, and the state after.\<close>

datatype alert = ImportSucceeded | InvalidRoomFile | FileReadError

definition handleFileChange :: "error option \<Rightarrow> json_text \<Rightarrow> world \<Rightarrow> alert \<times> world" where
  "handleFileChange resp file w =
     (case JSON_parse file of
        Inl e \<Rightarrow> (FileReadError, w)
      | Inr json \<Rightarrow>
          (case importRoom resp json w of
             (True, w') \<Rightarrow> (ImportSucceeded, w')
           | (False, w') \<Rightarrow> (InvalidRoomFile, w')))"

section \<open>Subscription\<close>

text \<open>\<^verbatim>\<open>({...r, messages: ..., memos: ...})\<close>: the own properties of \<^verbatim>\<open>r\<close> (the indexed elements
  of an array or a string, none of a number or a boolean), then the two properties.\<close>

fun spread :: "jsval \<Rightarrow> (string \<times> jsval) list" where
  "spread (JObj kvs) = kvs"
| "spread (JArr xs) = map (\<lambda>i. (dec i, xs ! i)) [0..<length xs]"
| "spread (JStr s) = map (\<lambda>i. (dec i, JStr [s ! i])) [0..<length s]"
| "spread v = []"

text \<open>\<^verbatim>\<open>r.f ? Object.values(r.f) : []\<close>\<close>

definition values_or_empty :: "string \<Rightarrow> jsval \<Rightarrow> error + jsval list" where
  "values_or_empty f r =
     (case read_prop f r of
        Inl e \<Rightarrow> Inl e
      | Inr v \<Rightarrow> if truthy v then Object_values v else Inr [])"

definition reshape :: "jsval \<Rightarrow> error + jsval" where
  "reshape r =
     (case values_or_empty ''messages'' r of
        Inl e \<Rightarrow> Inl e
      | Inr messages \<Rightarrow>
          (case values_or_empty ''memos'' r of
             Inl e \<Rightarrow> Inl e
           | Inr memos \<Rightarrow>
               Inr (JObj (assign ''memos'' (JArr memos)
                            (assign ''messages'' (JArr messages) (spread r))))))"

fun map_result :: "('a \<Rightarrow> error + 'b) \<Rightarrow> 'a list \<Rightarrow> error + 'b list" where
  "map_result f [] = Inr []"
| "map_result f (x # xs) =
     (case f x of
        Inl e \<Rightarrow> Inl e
      | Inr y \<Rightarrow> (case map_result f xs of Inl e \<Rightarrow> Inl e | Inr ys \<Rightarrow> Inr (y # ys)))"

text \<open>\<^verbatim>\<open>Object.values(data).map((r) => ...)\<close>\<close>

definition roomsList :: "jsval \<Rightarrow> error + jsval list" where
  "roomsList data =
     (case Object_values data of
        Inl e \<Rightarrow> Inl e
      | Inr rs \<Rightarrow> map_result reshape rs)"

text \<open>
  \<^verbatim>\<open>subscribeToRooms\<close>, by what its listeners do with a notification. In cloud mode the
  listener of the node \<^verbatim>\<open>rooms\<close> receives a snapshot value or a failure; in local mode
  \<^verbatim>\<open>loadLocal\<close> runs at the subscription and at every storage event, on the item stored
  then. The listeners of the other mode are not registered.
\<close>

datatype notification = RemoteValue jsval | RemoteFailure error | LocalStorage stored

datatype delivery = Delivered jsval | Logged error | Raised error | NotListening

fun subscribeToRooms :: "bool \<Rightarrow> notification \<Rightarrow> delivery" where
  "subscribeToRooms True (RemoteValue data) =
     (if truthy data then
        (case roomsList data of
           Inl e \<Rightarrow> Raised e
         | Inr rooms \<Rightarrow> Delivered (JArr rooms))
      else Delivered (JArr []))"
| "subscribeToRooms True (RemoteFailure e) = Logged e"
| "subscribeToRooms False (LocalStorage s) =
     (case parse_stored s of
        Inl e \<Rightarrow> Raised e
      | Inr rooms \<Rightarrow> Delivered rooms)"
| "subscribeToRooms cloud n = NotListening"

text \<open>The rooms that the subscriber holds after a notification: a delivery replaces
  them, anything else leaves them.\<close>

fun after_delivery :: "jsval \<Rightarrow> delivery \<Rightarrow> jsval" where
  "after_delivery known (Delivered rooms) = rooms"
| "after_delivery known d = known"

text \<open>A record whose \<^verbatim>\<open>messages\<close> and \<^verbatim>\<open>memos\<close> are arrays.\<close>

definition sequences :: "jsval \<Rightarrow> bool" where
  "sequences r =
     (case r of
        JObj kvs \<Rightarrow>
          (case obj_prop ''messages'' kvs of
             JArr ms \<Rightarrow> (case obj_prop ''memos'' kvs of JArr ns \<Rightarrow> True | v \<Rightarrow> False)
           | v \<Rightarrow> False)
      | v \<Rightarrow> False)"

section \<open>Credential setup\<close>

text \<open>
  What \<^verbatim>\<open>handleSave\<close> of the cloud setup dialog can show with \<^verbatim>\<open>setError\<close>: the format is not
  recognised, the value is no object, required fields are missing (with their names),
  \<^verbatim>\<open>databaseURL\<close> is missing (with the advice to look the URL up in the console of the
  database and add it), the connection test failed (with its message).
\<close>

datatype setup_error =
    UnknownFormat
  | NotAnObject
  | MissingFields "string list"
  | MissingDatabaseURL
  | ConnectionFailed string

text \<open>The outcome of one \<^verbatim>\<open>handleSave\<close>: the error shown, the URLs proposed with
  \<^verbatim>\<open>window.confirm\<close>, the configuration handed to the connection test, the configuration
  handed to \<^verbatim>\<open>onSave\<close>, and whether the dialog was closed.\<close>

record setup_result =
  shown :: "setup_error option"
  asked :: "string list"
  tested :: "(string \<times> jsval) list option"
  saved :: "(string \<times> jsval) list option"
  closed :: bool

definition failed :: "setup_error \<Rightarrow> setup_result" where
  "failed err = \<lparr>shown = Some err, asked = [], tested = None, saved = None, closed = False\<rparr>"

text \<open>\<^verbatim>\<open>typeof v === 'object'\<close>\<close>

fun typeof_object :: "jsval \<Rightarrow> bool" where
  "typeof_object (JObj kvs) = True"
| "typeof_object (JArr xs) = True"
| "typeof_object JNull = True"
| "typeof_object v = False"

text \<open>The named properties of a value that passed the test: an array has none of the
  names read here.\<close>

fun named_props :: "jsval \<Rightarrow> (string \<times> jsval) list" where
  "named_props (JObj kvs) = kvs"
| "named_props v = []"

text \<open>The connection test and what follows it. \<^verbatim>\<open>probe\<close> is \<^verbatim>\<open>testFirebaseConnection\<close>: no
  message when the backend reports the client connected, the message of the error it
  throws otherwise.\<close>

definition connect ::
  "((string \<times> jsval) list \<Rightarrow> string option) \<Rightarrow> string list \<Rightarrow> (string \<times> jsval) list \<Rightarrow> setup_result" where
  "connect probe urls config =
     (case probe config of
        Some message \<Rightarrow>
          \<lparr>shown = Some (ConnectionFailed message), asked = urls, tested = Some config,
           saved = None, closed = False\<rparr>
      | None \<Rightarrow>
          \<lparr>shown = None, asked = urls, tested = Some config, saved = Some config,
           closed = True\<rparr>)"

text \<open>
  \<^verbatim>\<open>handleSave\<close>. \<^verbatim>\<open>evaluated\<close> is the outcome of running the pasted text as the body
  \<^verbatim>\<open>return <text>\<close>, \<^verbatim>\<open>configJson\<close> the pasted text for \<^verbatim>\<open>JSON.parse\<close>, \<^verbatim>\<open>confirm\<close> the user's
  answer to the proposal of a URL.
\<close>

definition handleSave ::
  "error + jsval \<Rightarrow> json_text \<Rightarrow> (string \<Rightarrow> bool) \<Rightarrow>
   ((string \<times> jsval) list \<Rightarrow> string option) \<Rightarrow> setup_result" where
  "handleSave evaluated configJson confirm probe =
     (case (case evaluated of
              Inr c \<Rightarrow> Inr c
            | Inl e \<Rightarrow>
                (case JSON_parse configJson of
                   Inr c \<Rightarrow> Inr c
                 | Inl jsonError \<Rightarrow> Inl UnknownFormat)) of
        Inl err \<Rightarrow> failed err
      | Inr c \<Rightarrow>
          if \<not> truthy c \<or> \<not> typeof_object c then failed NotAnObject
          else
            (let config = named_props c;
                 missingFields =
                   (if \<not> truthy (obj_prop ''apiKey'' config) then [''apiKey''] else []) @
                   (if \<not> truthy (obj_prop ''projectId'' config) then [''projectId''] else [])
             in
               if length missingFields > 0 then failed (MissingFields missingFields)
               else if \<not> truthy (obj_prop ''databaseURL'' config) then
                 (let inferredUrl =
                        ''https://'' @ to_str (obj_prop ''projectId'' config) @
                        ''-default-rtdb.firebaseio.com''
                  in
                    if confirm inferredUrl
                    then connect probe [inferredUrl]
                           (assign ''databaseURL'' (JStr inferredUrl) config)
                    else \<lparr>shown = Some MissingDatabaseURL, asked = [inferredUrl],
                          tested = None, saved = None, closed = False\<rparr>)
               else connect probe [] config))"

text \<open>\<^verbatim>\<open>onSave\<close> is \<^verbatim>\<open>saveFirebaseConfig\<close>: the item under \<^verbatim>\<open>FIREBASE_CONFIG_KEY\<close> after the
  dialog.\<close>

definition saveFirebaseConfig :: "(string \<times> jsval) list \<Rightarrow> stored" where
  "saveFirebaseConfig config = Some (JSON_stringify (JObj config))"

definition credentials_after :: "stored \<Rightarrow> setup_result \<Rightarrow> stored" where
  "credentials_after item r =
     (case saved r of
        None \<Rightarrow> item
      | Some config \<Rightarrow> saveFirebaseConfig config)"

section \<open>Reading the local rooms\<close>

text \<open>
  C9, as the code has it. \<^verbatim>\<open>getLocalRooms\<close> raises nothing in any state of the persisted
  item. It returns the empty list when there is no item, when the text is empty and
  when the text does not parse; otherwise it returns what the text parses to. So it
  returns a list exactly when the item is absent, does not parse, or is the JSON text
  of a list.
\<close>

theorem getLocalRooms_total:
  "getLocalRooms None = JArr []
   \<and> getLocalRooms (Some EmptyText) = JArr []
   \<and> getLocalRooms (Some BadText) = JArr []
   \<and> getLocalRooms (Some (JsonText v)) = v
   \<and> ((\<exists>xs. getLocalRooms s = JArr xs)
        \<longleftrightarrow> (\<forall>u. s = Some (JsonText u) \<longrightarrow> (\<exists>xs. u = JArr xs)))"
proof -
  have "(\<exists>xs. getLocalRooms s = JArr xs)
        \<longleftrightarrow> (\<forall>u. s = Some (JsonText u) \<longrightarrow> (\<exists>xs. u = JArr xs))"
  proof (cases s)
    case None
    then show ?thesis by (simp add: getLocalRooms_def)
  next
    case (Some t)
    then show ?thesis by (cases t) (simp_all add: getLocalRooms_def)
  qed
  then show ?thesis by (simp add: getLocalRooms_def)
qed

theorem getLocalRooms_total_witness:
  "getLocalRooms (Some BadText) = JArr []
   \<and> getLocalRooms (Some (JsonText (JArr [JObj [(''id'', JStr ''a'')]]))) = JArr [JObj [(''id'', JStr ''a'')]]
   \<and> (\<exists>xs. getLocalRooms (Some (JsonText (JArr [JObj [(''id'', JStr ''a'')]]))) = JArr xs)"
proof -
  let ?rooms = "JArr [JObj [(''id'', JStr ''a'')]]"
  have h: "\<forall>u. Some (JsonText ?rooms) = Some (JsonText u) \<longrightarrow> (\<exists>xs. u = JArr xs)" by simp
  from getLocalRooms_total[of ?rooms "Some (JsonText ?rooms)"] h
  show ?thesis by blast
qed

text \<open>
  The claim C9 as stated fails on a stored text that is valid JSON and no list: for the
  stored text \<^verbatim>\<open>null\<close> the function returns \<^verbatim>\<open>null\<close>, which is no list.
\<close>

theorem getLocalRooms_null_returned:
  "getLocalRooms (Some (JsonText JNull)) = JNull
   \<and> \<not> (\<exists>xs. getLocalRooms (Some (JsonText JNull)) = JArr xs)"
  by (simp add: getLocalRooms_def)

section \<open>Properties of objects\<close>

lemma map_of_assign: "map_of (assign k v kvs) = (map_of kvs)(k \<mapsto> v)"
  by (induction kvs) (auto simp: fun_eq_iff)

lemma obj_prop_assign: "obj_prop k (assign k' v kvs) = (if k = k' then v else obj_prop k kvs)"
  by (simp add: obj_prop_def map_of_assign)

section \<open>What a subscriber receives\<close>

lemma reshape_sequences: "reshape r = Inr x \<Longrightarrow> sequences x"
  by (auto simp: reshape_def sequences_def obj_prop_assign split: sum.splits)

lemma map_result_all:
  "map_result f xs = Inr ys \<Longrightarrow> (\<And>x y. f x = Inr y \<Longrightarrow> P y) \<Longrightarrow> \<forall>y\<in>set ys. P y"
  by (induction xs arbitrary: ys) (auto split: sum.splits)

lemma map_result_total:
  "(\<And>x. x \<in> set xs \<Longrightarrow> \<exists>y. f x = Inr y) \<Longrightarrow> \<exists>ys. map_result f xs = Inr ys"
  by (induction xs) (fastforce split: sum.splits)+

lemma values_or_empty_total:
  "r \<noteq> JNull \<Longrightarrow> r \<noteq> JUndefined \<Longrightarrow> \<exists>xs. values_or_empty f r = Inr xs"
  apply (cases r; simp add: values_or_empty_def)
  subgoal for kvs
    apply (cases "case map_of kvs f of None \<Rightarrow> JUndefined | Some v \<Rightarrow> v")
    apply auto
    done
  done

lemma reshape_total: "r \<noteq> JNull \<Longrightarrow> r \<noteq> JUndefined \<Longrightarrow> \<exists>x. reshape r = Inr x"
  using values_or_empty_total[of r "''messages''"] values_or_empty_total[of r "''memos''"]
  by (auto simp: reshape_def)

text \<open>
  C2, as the code has it. In cloud mode every collection that the callback receives is
  an array of records whose \<^verbatim>\<open>messages\<close> and \<^verbatim>\<open>memos\<close> are arrays, whatever the shape of
  the payload; a payload without data (\<^verbatim>\<open>null\<close>) is delivered as the empty array; and a
  payload whose children are all present is delivered. In local mode the callback
  receives the parsed stored value as it is, reshaped by nothing: its records have
  arrays where the stored records have them.
\<close>

theorem subscribe_sequences:
  "(subscribeToRooms True (RemoteValue data) = Delivered v \<longrightarrow>
      (\<exists>rooms. v = JArr rooms \<and> (\<forall>r\<in>set rooms. sequences r)))
   \<and> (\<not> truthy data \<longrightarrow> subscribeToRooms True (RemoteValue data) = Delivered (JArr []))
   \<and> ((\<forall>r\<in>set (map snd children). r \<noteq> JNull \<and> r \<noteq> JUndefined) \<longrightarrow>
        (\<exists>rooms. subscribeToRooms True (RemoteValue (JObj children)) = Delivered (JArr rooms)))
   \<and> subscribeToRooms False (LocalStorage (Some (JsonText stored_rooms))) = Delivered stored_rooms"
proof (intro conjI impI)
  assume "subscribeToRooms True (RemoteValue data) = Delivered v"
  then show "\<exists>rooms. v = JArr rooms \<and> (\<forall>r\<in>set rooms. sequences r)"
    by (auto simp: roomsList_def split: if_splits sum.splits
             dest!: map_result_all[where P = sequences] intro: reshape_sequences)
next
  assume "\<not> truthy data"
  then show "subscribeToRooms True (RemoteValue data) = Delivered (JArr [])" by simp
next
  assume a: "\<forall>r\<in>set (map snd children). r \<noteq> JNull \<and> r \<noteq> JUndefined"
  have "\<exists>ys. map_result reshape (map snd children) = Inr ys"
    by (rule map_result_total) (use a reshape_total in blast)
  then show "\<exists>rooms. subscribeToRooms True (RemoteValue (JObj children)) = Delivered (JArr rooms)"
    by (auto simp: roomsList_def)
next
  show "subscribeToRooms False (LocalStorage (Some (JsonText stored_rooms))) = Delivered stored_rooms"
    by simp
qed

text \<open>The theorem at a payload with one room whose messages arrive as a key-indexed
  mapping and whose memos are missing, and at the payload \<^verbatim>\<open>null\<close>.\<close>

theorem subscribe_sequences_witness:
  "subscribeToRooms True
     (RemoteValue (JObj [(''r1'', JObj [(''id'', JStr ''r1''),
                                       (''messages'', JObj [(''0'', JStr ''hello'')])])]))
   = Delivered (JArr [JObj [(''id'', JStr ''r1''),
                            (''messages'', JArr [JStr ''hello'']),
                            (''memos'', JArr [])]])
   \<and> (\<exists>rooms. JArr [JObj [(''id'', JStr ''r1''),
                           (''messages'', JArr [JStr ''hello'']),
                           (''memos'', JArr [])]] = JArr rooms
              \<and> (\<forall>r\<in>set rooms. sequences r))
   \<and> subscribeToRooms True (RemoteValue JNull) = Delivered (JArr [])"
proof -
  let ?data = "JObj [(''r1'', JObj [(''id'', JStr ''r1''),
                                   (''messages'', JObj [(''0'', JStr ''hello'')])])]"
  let ?v = "JArr [JObj [(''id'', JStr ''r1''),
                        (''messages'', JArr [JStr ''hello'']),
                        (''memos'', JArr [])]]"
  have d: "subscribeToRooms True (RemoteValue ?data) = Delivered ?v"
    by (simp add: roomsList_def reshape_def values_or_empty_def)
  have n: "\<not> truthy JNull" by simp
  from subscribe_sequences[of ?data ?v "[]" JNull] d
  have "\<exists>rooms. ?v = JArr rooms \<and> (\<forall>r\<in>set rooms. sequences r)" by blast
  moreover from subscribe_sequences[of JNull ?v "[]" JNull] n
  have "subscribeToRooms True (RemoteValue JNull) = Delivered (JArr [])" by blast
  ultimately show ?thesis using d by simp
qed

text \<open>
  The claim C2 as stated fails in local mode. A room file whose \<^verbatim>\<open>messages\<close> are a
  key-indexed mapping is accepted by \<^verbatim>\<open>importRoom\<close> (it has an identifier and a title) and
  stored; the next notification delivers the record with the mapping.
\<close>

theorem subscribe_local_mapping_delivered:
  "subscribeToRooms False
     (LocalStorage (localItem (snd (importRoom None
        (JObj [(''id'', JStr ''r1''), (''title'', JStr ''t''),
               (''messages'', JObj [(''0'', JStr ''hello'')]), (''memos'', JArr [])])
        \<lparr>cloudEnabled = False, localItem = None, remoteRooms = [], console = [],
         unhandled = [], notifications = 0\<rparr>))))
   = Delivered (JArr [JObj [(''id'', JStr ''r1''), (''title'', JStr ''t''),
                            (''messages'', JObj [(''0'', JStr ''hello'')]), (''memos'', JArr [])]])
   \<and> \<not> sequences (JObj [(''id'', JStr ''r1''), (''title'', JStr ''t''),
                         (''messages'', JObj [(''0'', JStr ''hello'')]), (''memos'', JArr [])])"
  by (simp add: obj_prop_def saveRoom_def getLocalRooms_def detached_def JSON_stringify_def
                sequences_def)

section \<open>Deleting a room\<close>

lemma is_json_JArr: "is_json (JArr rs) \<longleftrightarrow> (\<forall>r\<in>set rs. is_json r)"
proof -
  have "map (\<lambda>x. if x = JUndefined then JNull else sanitize x) rs = rs
        \<longleftrightarrow> (\<forall>r\<in>set rs. (if r = JUndefined then JNull else sanitize r) = r)"
    by (induction rs) auto
  then show ?thesis by (auto simp: is_json_def)
qed

lemma stringify_json: "is_json v \<Longrightarrow> JSON_stringify v = JsonText v"
  by (simp add: JSON_stringify_def is_json_def)

lemma filter_rooms_sub: "filter_rooms roomId rs = Inr rs' \<Longrightarrow> set rs' \<subseteq> set rs"
  by (induction rs arbitrary: rs') (auto split: sum.splits if_splits)

lemma filter_rooms_idem: "filter_rooms roomId rs = Inr rs' \<Longrightarrow> filter_rooms roomId rs' = Inr rs'"
  by (induction rs arbitrary: rs') (auto split: sum.splits if_splits)

lemma filter_rooms_absent:
  "records rs \<Longrightarrow> \<forall>r\<in>set rs. \<not> has_id roomId r \<Longrightarrow> filter_rooms roomId rs = Inr rs"
proof (induction rs)
  case Nil then show ?case by simp
next
  case (Cons r rs)
  then have "filter_rooms roomId rs = Inr rs" by (simp add: records_def)
  moreover from Cons.prems obtain j where "read_prop ''id'' r = Inr j" "to_str j \<noteq> roomId"
    by (cases r) (auto simp: records_def has_id_def)
  ultimately show ?case by simp
qed

lemma getLocalRooms_json: "json_item s \<Longrightarrow> is_json (getLocalRooms s)"
  apply (cases s)
   apply (simp add: getLocalRooms_def is_json_def)
  subgoal for t by (cases t) (auto simp: getLocalRooms_def is_json_def json_item_def)
  done

lemma remote_remove_idem: "remote_remove k (remote_remove k kvs) = remote_remove k kvs"
  by (simp add: remote_remove_def)

lemma remote_remove_absent: "map_of kvs k = None \<Longrightarrow> remote_remove k kvs = kvs"
  by (induction kvs) (auto simp: remote_remove_def split: if_splits)

lemma local_delete_twice:
  assumes "is_json v" "local_delete roomId v = Inr rs'"
  shows "JSON_stringify (JArr rs') = JsonText (JArr rs') \<and> local_delete roomId (JArr rs') = Inr rs'"
proof -
  from assms(2) obtain rs where v: "v = JArr rs" and f: "filter_rooms roomId rs = Inr rs'"
    by (cases v) auto
  from assms(1) v filter_rooms_sub[OF f] have "is_json (JArr rs')"
    by (auto simp: is_json_JArr)
  then show ?thesis using filter_rooms_idem[OF f] by (simp add: stringify_json)
qed

lemma deleteRoom_idempotent:
  assumes "json_item (localItem w)"
  shows "localItem (snd (deleteRoom None roomId (snd (deleteRoom None roomId w))))
           = localItem (snd (deleteRoom None roomId w))
         \<and> remoteRooms (snd (deleteRoom None roomId (snd (deleteRoom None roomId w))))
           = remoteRooms (snd (deleteRoom None roomId w))
         \<and> fst (deleteRoom None roomId (snd (deleteRoom None roomId w)))
           = fst (deleteRoom None roomId w)"
proof (cases "cloudEnabled w")
  case True
  then show ?thesis by (simp add: deleteRoom_def remote_remove_idem)
next
  case False
  show ?thesis
  proof (cases "local_delete roomId (getLocalRooms (localItem w))")
    case (Inl e)
    with False show ?thesis by (simp add: deleteRoom_def)
  next
    case (Inr rs')
    from local_delete_twice[OF getLocalRooms_json[OF assms] Inr]
    have "JSON_stringify (JArr rs') = JsonText (JArr rs')" "local_delete roomId (JArr rs') = Inr rs'"
      by auto
    with False Inr show ?thesis by (simp add: deleteRoom_def getLocalRooms_def)
  qed
qed

text \<open>
  C5. With the requests accepted by the backend, and the stored item JSON data, deleting
  a room twice leaves the same local item and the same remote rooms as deleting it once,
  and the second call ends as the first did. Deleting an identifier that no stored
  record has ends without error and leaves the room collection as it was: in local mode
  the same rooms are written back (and a change notification is sent), in cloud mode
  nothing changes.
\<close>

theorem deleteRoom_twice_once:
  "(json_item (localItem w) \<longrightarrow>
      localItem (snd (deleteRoom None roomId (snd (deleteRoom None roomId w))))
        = localItem (snd (deleteRoom None roomId w))
      \<and> remoteRooms (snd (deleteRoom None roomId (snd (deleteRoom None roomId w))))
        = remoteRooms (snd (deleteRoom None roomId w))
      \<and> fst (deleteRoom None roomId (snd (deleteRoom None roomId w)))
        = fst (deleteRoom None roomId w))
   \<and> (\<not> cloudEnabled w \<and> json_item (localItem w) \<and> getLocalRooms (localItem w) = JArr rooms
        \<and> records rooms \<and> (\<forall>r\<in>set rooms. \<not> has_id roomId r) \<longrightarrow>
      fst (deleteRoom resp roomId w) = Inr ()
      \<and> getLocalRooms (localItem (snd (deleteRoom resp roomId w))) = JArr rooms
      \<and> remoteRooms (snd (deleteRoom resp roomId w)) = remoteRooms w)
   \<and> (cloudEnabled w \<and> map_of (remoteRooms w) (''rooms/'' @ roomId) = None \<longrightarrow>
      deleteRoom None roomId w = (Inr (), w))"
proof (intro conjI impI)
  assume a: "\<not> cloudEnabled w \<and> json_item (localItem w) \<and> getLocalRooms (localItem w) = JArr rooms
        \<and> records rooms \<and> (\<forall>r\<in>set rooms. \<not> has_id roomId r)"
  then have f: "filter_rooms roomId rooms = Inr rooms" by (simp add: filter_rooms_absent)
  from a getLocalRooms_json[of "localItem w"] have "is_json (JArr rooms)" by simp
  then have s: "JSON_stringify (JArr rooms) = JsonText (JArr rooms)" by (rule stringify_json)
  from a f s show "fst (deleteRoom resp roomId w) = Inr ()"
    and "getLocalRooms (localItem (snd (deleteRoom resp roomId w))) = JArr rooms"
    and "remoteRooms (snd (deleteRoom resp roomId w)) = remoteRooms w"
    by (simp_all add: deleteRoom_def getLocalRooms_def)
next
  assume "cloudEnabled w \<and> map_of (remoteRooms w) (''rooms/'' @ roomId) = None"
  then show "deleteRoom None roomId w = (Inr (), w)"
    by (simp add: deleteRoom_def remote_remove_absent)
qed (use deleteRoom_idempotent in blast)+

theorem deleteRoom_twice_once_witness:
  "localItem (snd (deleteRoom None ''a'' (snd (deleteRoom None ''a''
      \<lparr>cloudEnabled = False,
       localItem = Some (JsonText (JArr [JObj [(''id'', JStr ''a'')], JObj [(''id'', JStr ''b'')]])),
       remoteRooms = [], console = [], unhandled = [], notifications = 0\<rparr>))))
   = Some (JsonText (JArr [JObj [(''id'', JStr ''b'')]]))
   \<and> localItem (snd (deleteRoom None ''a''
      \<lparr>cloudEnabled = False,
       localItem = Some (JsonText (JArr [JObj [(''id'', JStr ''a'')], JObj [(''id'', JStr ''b'')]])),
       remoteRooms = [], console = [], unhandled = [], notifications = 0\<rparr>))
   = Some (JsonText (JArr [JObj [(''id'', JStr ''b'')]]))
   \<and> fst (deleteRoom None ''c''
      \<lparr>cloudEnabled = False,
       localItem = Some (JsonText (JArr [JObj [(''id'', JStr ''a'')], JObj [(''id'', JStr ''b'')]])),
       remoteRooms = [], console = [], unhandled = [], notifications = 0\<rparr>) = Inr ()
   \<and> deleteRoom None ''c''
      \<lparr>cloudEnabled = True, localItem = None,
       remoteRooms = [(''rooms/a'', [(''id'', JStr ''a'')])],
       console = [], unhandled = [], notifications = 0\<rparr>
     = (Inr (), \<lparr>cloudEnabled = True, localItem = None,
       remoteRooms = [(''rooms/a'', [(''id'', JStr ''a'')])],
       console = [], unhandled = [], notifications = 0\<rparr>)"
proof -
  let ?rooms = "[JObj [(''id'', JStr ''a'')], JObj [(''id'', JStr ''b'')]]"
  let ?w = "\<lparr>cloudEnabled = False, localItem = Some (JsonText (JArr ?rooms)),
       remoteRooms = [], console = [], unhandled = [], notifications = 0\<rparr>"
  let ?c = "\<lparr>cloudEnabled = True, localItem = None,
       remoteRooms = [(''rooms/a'', [(''id'', JStr ''a'')])],
       console = [], unhandled = [], notifications = 0\<rparr>"
  have j: "json_item (localItem ?w)" by (simp add: json_item_def is_json_def)
  have once: "localItem (snd (deleteRoom None ''a'' ?w)) = Some (JsonText (JArr [JObj [(''id'', JStr ''b'')]]))"
    by (simp add: deleteRoom_def getLocalRooms_def JSON_stringify_def)
  have l: "\<not> cloudEnabled ?w \<and> json_item (localItem ?w) \<and> getLocalRooms (localItem ?w) = JArr ?rooms
        \<and> records ?rooms \<and> (\<forall>r\<in>set ?rooms. \<not> has_id ''c'' r)"
    by (simp add: json_item_def is_json_def getLocalRooms_def records_def has_id_def)
  have c: "cloudEnabled ?c \<and> map_of (remoteRooms ?c) (''rooms/'' @ ''c'') = None" by simp
  from deleteRoom_twice_once[of ?w "''a''" ?rooms None] j once
  have 1: "localItem (snd (deleteRoom None ''a'' (snd (deleteRoom None ''a'' ?w))))
            = Some (JsonText (JArr [JObj [(''id'', JStr ''b'')]]))" by metis
  from deleteRoom_twice_once[of ?w "''c''" ?rooms None] l
  have 2: "fst (deleteRoom None ''c'' ?w) = Inr ()" by blast
  from deleteRoom_twice_once[of ?c "''c''" "[]" None] c
  have 3: "deleteRoom None ''c'' ?c = (Inr (), ?c)" by blast
  from 1 once 2 3 show ?thesis by blast
qed

section \<open>Operations on a room that is not stored\<close>

lemma find_id_absent:
  "records rs \<Longrightarrow> \<forall>r\<in>set rs. \<not> is_room roomId r \<Longrightarrow> find_id (JStr roomId) rs = Inr None"
proof (induction rs)
  case Nil then show ?case by simp
next
  case (Cons r rs)
  then have "find_id (JStr roomId) rs = Inr None" by (simp add: records_def)
  moreover from Cons.prems obtain j where "read_prop ''id'' r = Inr j" "\<not> strict_eq j (JStr roomId)"
    by (cases r) (auto simp: records_def is_room_def)
  ultimately show ?case by simp
qed

lemma local_change_absent:
  "getLocalRooms (localItem w) = JArr rooms \<Longrightarrow> records rooms \<Longrightarrow>
   \<forall>r\<in>set rooms. \<not> is_room roomId r \<Longrightarrow> local_change roomId change w = (Inr (), w)"
  by (simp add: local_change_def find_id_absent)

lemma push_update_None: "push_update f item None = Inr None"
  by (simp add: push_update_def)

lemma drop_update_None: "drop_update memoId None = Inr None"
  by (simp add: drop_update_def)

lemma cloud_transaction_absent:
  assumes "map_of (remoteRooms w) (''rooms/'' @ roomId) = None" "update None = Inr None"
  shows "fst (cloud_transaction resp roomId update w) = Inr ()
         \<and> remoteRooms (snd (cloud_transaction resp roomId update w)) = remoteRooms w
         \<and> localItem (snd (cloud_transaction resp roomId update w)) = localItem w
         \<and> cloud_transaction None roomId update w = (Inr (), w)"
  using assms
  by (cases resp) (simp_all add: cloud_transaction_def remote_transaction_def remote_remove_absent)

text \<open>
  C10. When no stored record has the identifier (local mode: the stored collection is a
  list of records none of which passes \<^verbatim>\<open>r.id === roomId\<close>; cloud mode: the node has no
  child for the identifier), \<^verbatim>\<open>addMessage\<close>, \<^verbatim>\<open>addMemo\<close> and \<^verbatim>\<open>deleteMemo\<close> end without error and
  leave the stored rooms as they were. In local mode nothing at all changes; in cloud
  mode the transaction writes back the absent value, and this whatever the backend
  answers.
\<close>

theorem absent_room_untouched:
  "(\<not> cloudEnabled w \<and> getLocalRooms (localItem w) = JArr rooms \<and> records rooms
      \<and> (\<forall>r\<in>set rooms. \<not> is_room roomId r) \<longrightarrow>
        addMessage resp roomId message w = (Inr (), w)
      \<and> addMemo resp roomId memo w = (Inr (), w)
      \<and> deleteMemo resp roomId memoId w = (Inr (), w))
   \<and> (cloudEnabled w \<and> map_of (remoteRooms w) (''rooms/'' @ roomId) = None \<longrightarrow>
        fst (addMessage resp roomId message w) = Inr ()
      \<and> remoteRooms (snd (addMessage resp roomId message w)) = remoteRooms w
      \<and> localItem (snd (addMessage resp roomId message w)) = localItem w
      \<and> fst (addMemo resp roomId memo w) = Inr ()
      \<and> remoteRooms (snd (addMemo resp roomId memo w)) = remoteRooms w
      \<and> localItem (snd (addMemo resp roomId memo w)) = localItem w
      \<and> fst (deleteMemo resp roomId memoId w) = Inr ()
      \<and> remoteRooms (snd (deleteMemo resp roomId memoId w)) = remoteRooms w
      \<and> localItem (snd (deleteMemo resp roomId memoId w)) = localItem w)"
proof (intro conjI impI)
  assume a: "\<not> cloudEnabled w \<and> getLocalRooms (localItem w) = JArr rooms \<and> records rooms
      \<and> (\<forall>r\<in>set rooms. \<not> is_room roomId r)"
  then show "addMessage resp roomId message w = (Inr (), w)"
    and "addMemo resp roomId memo w = (Inr (), w)"
    and "deleteMemo resp roomId memoId w = (Inr (), w)"
    by (simp_all add: addMessage_def addMemo_def deleteMemo_def local_change_absent)
next
  assume c: "cloudEnabled w \<and> map_of (remoteRooms w) (''rooms/'' @ roomId) = None"
  note m = cloud_transaction_absent[where update = "push_update ''messages'' message" and resp = resp,
      OF conjunct2[OF c] push_update_None]
  note n = cloud_transaction_absent[where update = "push_update ''memos'' memo" and resp = resp,
      OF conjunct2[OF c] push_update_None]
  note d = cloud_transaction_absent[where update = "drop_update memoId" and resp = resp,
      OF conjunct2[OF c] drop_update_None]
  from c m show "fst (addMessage resp roomId message w) = Inr ()"
    and "remoteRooms (snd (addMessage resp roomId message w)) = remoteRooms w"
    and "localItem (snd (addMessage resp roomId message w)) = localItem w"
    by (simp_all add: addMessage_def)
  from c n show "fst (addMemo resp roomId memo w) = Inr ()"
    and "remoteRooms (snd (addMemo resp roomId memo w)) = remoteRooms w"
    and "localItem (snd (addMemo resp roomId memo w)) = localItem w"
    by (simp_all add: addMemo_def)
  from c d show "fst (deleteMemo resp roomId memoId w) = Inr ()"
    and "remoteRooms (snd (deleteMemo resp roomId memoId w)) = remoteRooms w"
    and "localItem (snd (deleteMemo resp roomId memoId w)) = localItem w"
    by (simp_all add: deleteMemo_def)
qed

theorem absent_room_untouched_witness:
  "addMessage None ''c'' (JObj [(''text'', JStr ''hi'')])
      \<lparr>cloudEnabled = False,
       localItem = Some (JsonText (JArr [JObj [(''id'', JStr ''a''), (''messages'', JArr [])]])),
       remoteRooms = [], console = [], unhandled = [], notifications = 0\<rparr>
   = (Inr (), \<lparr>cloudEnabled = False,
       localItem = Some (JsonText (JArr [JObj [(''id'', JStr ''a''), (''messages'', JArr [])]])),
       remoteRooms = [], console = [], unhandled = [], notifications = 0\<rparr>)
   \<and> fst (deleteMemo (Some (RemoteError ''offline'')) ''c'' ''m1''
      \<lparr>cloudEnabled = True, localItem = None,
       remoteRooms = [(''rooms/a'', [(''id'', JStr ''a'')])],
       console = [], unhandled = [], notifications = 0\<rparr>) = Inr ()
   \<and> remoteRooms (snd (addMemo None ''c'' (JObj [(''id'', JStr ''m1'')])
      \<lparr>cloudEnabled = True, localItem = None,
       remoteRooms = [(''rooms/a'', [(''id'', JStr ''a'')])],
       console = [], unhandled = [], notifications = 0\<rparr>))
     = [(''rooms/a'', [(''id'', JStr ''a'')])]"
proof -
  let ?rooms = "[JObj [(''id'', JStr ''a''), (''messages'', JArr [])]]"
  let ?w = "\<lparr>cloudEnabled = False, localItem = Some (JsonText (JArr ?rooms)),
       remoteRooms = [], console = [], unhandled = [], notifications = 0\<rparr>"
  let ?c = "\<lparr>cloudEnabled = True, localItem = None,
       remoteRooms = [(''rooms/a'', [(''id'', JStr ''a'')])],
       console = [], unhandled = [], notifications = 0\<rparr>"
  have l: "\<not> cloudEnabled ?w \<and> getLocalRooms (localItem ?w) = JArr ?rooms \<and> records ?rooms
      \<and> (\<forall>r\<in>set ?rooms. \<not> is_room ''c'' r)"
    by (simp add: getLocalRooms_def records_def is_room_def)
  have c: "cloudEnabled ?c \<and> map_of (remoteRooms ?c) (''rooms/'' @ ''c'') = None" by simp
  from absent_room_untouched[of ?w ?rooms "''c''" None "JObj [(''text'', JStr ''hi'')]" JNull "[]"] l
  have 1: "addMessage None ''c'' (JObj [(''text'', JStr ''hi'')]) ?w = (Inr (), ?w)" by blast
  from absent_room_untouched[of ?c "[]" "''c''" "Some (RemoteError ''offline'')" JNull JNull "''m1''"] c
  have 2: "fst (deleteMemo (Some (RemoteError ''offline'')) ''c'' ''m1'' ?c) = Inr ()" by blast
  from absent_room_untouched[of ?c "[]" "''c''" None JNull "JObj [(''id'', JStr ''m1'')]" "[]"] c
  have 3: "remoteRooms (snd (addMemo None ''c'' (JObj [(''id'', JStr ''m1'')]) ?c)) = remoteRooms ?c" by blast
  from 1 2 3 show ?thesis by simp
qed

section \<open>Two appends at the same time\<close>

lemma map_of_remote_set: "map_of (remote_set k v kvs) = (map_of kvs)(k \<mapsto> v)"
  by (induction kvs) (auto simp: fun_eq_iff)

lemma push_update_Some:
  "\<exists>room'. push_update f item (Some room) = Inr (Some room')
           \<and> obj_prop f room' = JArr (as_sequence f room @ [item])"
proof (cases "truthy (obj_prop f room)")
  case False
  then have "as_sequence f room = []"
    by (cases "obj_prop f room") (auto simp: as_sequence_def)
  with False show ?thesis by (simp add: push_update_def obj_prop_assign)
next
  case True
  then show ?thesis
    by (cases "obj_prop f room") (auto simp: push_update_def as_sequence_def obj_prop_assign)
qed

lemma as_sequence_JArr: "obj_prop f room = JArr xs \<Longrightarrow> as_sequence f room = xs"
  by (simp add: as_sequence_def)

lemma push_update_total: "\<exists>x. push_update f item room = Inr x"
proof (cases room)
  case None
  then show ?thesis by (simp add: push_update_None)
next
  case (Some kvs)
  with push_update_Some[of f item kvs] show ?thesis by blast
qed

lemma moves_True_cases:
  assumes "m \<in> set (moves True u v c)"
  obtains cache where "c = Waiting cache" "m = (v, attempt u cache)"
  | seen new where "c = Computed seen new" "seen \<noteq> v" "m = (v, attempt u v)"
  | new where "c = Computed v new" "m = (new, Finished)"
  using assms by (cases c) (auto split: if_splits)

lemma attempt_total: "u seen = Inr new \<Longrightarrow> attempt u seen = Computed seen new"
  by simp

text \<open>Every move of a transaction keeps the values serial, so the node at the end of
  a run holds the first value updated by one client and then by the other.\<close>

lemma serial_step:
  assumes tot1: "\<And>x. \<exists>y. u1 x = Inr y" and tot2: "\<And>x. \<exists>y. u2 x = Inr y"
    and inv: "serial u1 u2 v0 s" and step: "t \<in> set (successors True u1 u2 s)"
  shows "serial u1 u2 v0 t"
proof -
  obtain v c1 c2 where s: "s = (v, c1, c2)" by (cases s)
  from step s consider
    m where "m \<in> set (moves True u1 v c1)" "t = (fst m, snd m, c2)"
  | m where "m \<in> set (moves True u2 v c2)" "t = (fst m, c1, snd m)"
    by auto
  then show ?thesis
  proof cases
    case 1
    from 1(1) show ?thesis
    proof (cases rule: moves_True_cases)
      case (1 cache)
      from tot1[of cache] obtain y where "u1 cache = Inr y" by blast
      with 1 \<open>t = (fst m, snd m, c2)\<close> inv s show ?thesis by (auto simp: serial_def)
    next
      case (2 seen new)
      from tot1[of v] obtain y where "u1 v = Inr y" by blast
      with 2 \<open>t = (fst m, snd m, c2)\<close> inv s show ?thesis by (auto simp: serial_def)
    next
      case (3 new)
      with \<open>t = (fst m, snd m, c2)\<close> inv s show ?thesis by (auto simp: serial_def)
    qed
  next
    case 2
    from 2(1) show ?thesis
    proof (cases rule: moves_True_cases)
      case (1 cache)
      from tot2[of cache] obtain y where "u2 cache = Inr y" by blast
      with 1 \<open>t = (fst m, c1, snd m)\<close> inv s show ?thesis by (auto simp: serial_def)
    next
      case (2 seen new)
      from tot2[of v] obtain y where "u2 v = Inr y" by blast
      with 2 \<open>t = (fst m, c1, snd m)\<close> inv s show ?thesis by (auto simp: serial_def)
    next
      case (3 new)
      with \<open>t = (fst m, c1, snd m)\<close> inv s show ?thesis by (auto simp: serial_def)
    qed
  qed
qed

lemma serial_runs:
  assumes tot1: "\<And>x. \<exists>y. u1 x = Inr y" and tot2: "\<And>x. \<exists>y. u2 x = Inr y"
    and run: "runs True u1 u2 s r" and inv: "serial u1 u2 v0 s"
  shows "serial u1 u2 v0 r"
  using run inv
proof (induction rule: runs.induct)
  case (stay s) then show ?case .
next
  case (move t s r)
  from serial_step[OF tot1 tot2 move.prems move.hyps(1)] move.IH show ?case by blast
qed

lemma transactions_serial:
  assumes tot1: "\<And>x. \<exists>y. u1 x = Inr y" and tot2: "\<And>x. \<exists>y. u2 x = Inr y"
    and run: "runs True u1 u2 (v0, Waiting k1, Waiting k2) (v, Finished, Finished)"
  shows "(\<exists>x. u1 v0 = Inr x \<and> u2 x = Inr v) \<or> (\<exists>x. u2 v0 = Inr x \<and> u1 x = Inr v)"
proof -
  have "serial u1 u2 v0 (v0, Waiting k1, Waiting k2)" by (simp add: serial_def)
  from serial_runs[OF tot1 tot2 run this] show ?thesis by (simp add: serial_def)
qed

text \<open>Every move of a transaction leaves fewer moves, so no run goes on for ever, and
  a state in which a client is not finished has a next move.\<close>

lemma moves_weight:
  assumes "m \<in> set (moves True u v c)"
  shows "weight v (snd m) < weight v c \<and> (fst m = v \<or> snd m = Finished \<and> weight v c = 4)"
  using assms by (cases c) (auto split: if_splits sum.splits)

lemma weight_change: "weight v' c \<le> weight v c + 1"
  by (cases c) auto

lemma weight_Finished: "weight v Finished = 0"
  by simp

lemma successors_fewer:
  assumes "t \<in> set (successors True u1 u2 s)"
  shows "moves_left t < moves_left s"
proof -
  obtain v c1 c2 where s: "s = (v, c1, c2)" by (cases s)
  from assms s consider
    m where "m \<in> set (moves True u1 v c1)" "t = (fst m, snd m, c2)"
  | m where "m \<in> set (moves True u2 v c2)" "t = (fst m, c1, snd m)"
    by auto
  then show ?thesis
  proof cases
    case 1
    from moves_weight[OF 1(1)] weight_change[of "fst m" c2 v] 1(2) s show ?thesis
      by (cases "fst m = v") auto
  next
    case 2
    from moves_weight[OF 2(1)] weight_change[of "fst m" c1 v] 2(2) s show ?thesis
      by (cases "fst m = v") auto
  qed
qed

lemma moves_nonempty: "c \<noteq> Finished \<Longrightarrow> moves checked u v c \<noteq> []"
  by (cases c) auto

lemma successors_nonempty:
  "c1 \<noteq> Finished \<or> c2 \<noteq> Finished \<Longrightarrow> successors checked u1 u2 (v, c1, c2) \<noteq> []"
  using moves_nonempty by auto

lemma transactions_finish: "\<exists>v. runs True u1 u2 s (v, Finished, Finished)"
proof (induction "moves_left s" arbitrary: s rule: less_induct)
  case less
  obtain v c1 c2 where s: "s = (v, c1, c2)" by (cases s)
  show ?case
  proof (cases "c1 = Finished \<and> c2 = Finished")
    case True
    with s show ?thesis by (auto intro: runs.stay)
  next
    case False
    with successors_nonempty[of c1 c2 True u1 u2 v] s
    have ne: "successors True u1 u2 s \<noteq> []" by blast
    define t where "t = hd (successors True u1 u2 s)"
    have t: "t \<in> set (successors True u1 u2 s)"
      unfolding t_def by (rule hd_in_set[OF ne])
    from less[OF successors_fewer[OF t]] obtain v' where "runs True u1 u2 t (v', Finished, Finished)"
      by blast
    with t show ?thesis by (blast intro: runs.move)
  qed
qed

lemma map_of_remote_remove: "map_of (remote_remove k kvs) k = None"
  by (induction kvs) (auto simp: remote_remove_def)

lemma addMessage_node:
  assumes "cloudEnabled w"
    "push_update ''messages'' m (map_of (remoteRooms w) (''rooms/'' @ roomId)) = Inr n"
  shows "map_of (remoteRooms (snd (addMessage None roomId m w))) (''rooms/'' @ roomId) = n
         \<and> cloudEnabled (snd (addMessage None roomId m w))"
  using assms
  by (cases n)
     (simp_all add: addMessage_def cloud_transaction_def remote_transaction_def
                    map_of_remote_remove map_of_remote_set)

lemma addMessage_serial:
  assumes "cloudEnabled w" "map_of (remoteRooms w) (''rooms/'' @ roomId) = Some room"
    "push_update ''messages'' a (Some room) = Inr x" "push_update ''messages'' b x = Inr v"
  shows "v = map_of (remoteRooms (snd (addMessage None roomId b (snd (addMessage None roomId a w)))))
               (''rooms/'' @ roomId)"
proof -
  from addMessage_node[OF assms(1), of a roomId x] assms(2,3)
  have 1: "map_of (remoteRooms (snd (addMessage None roomId a w))) (''rooms/'' @ roomId) = x"
    and c: "cloudEnabled (snd (addMessage None roomId a w))" by simp_all
  from addMessage_node[OF c, of b roomId v] 1 assms(4) show ?thesis by simp
qed

lemma push_twice:
  assumes "push_update ''messages'' a (Some room) = Inr x" "push_update ''messages'' b x = Inr v"
  shows "\<exists>room'. v = Some room'
           \<and> obj_prop ''messages'' room' = JArr (as_sequence ''messages'' room @ [a, b])"
proof -
  from push_update_Some[of "''messages''" a room] assms(1) obtain r1 where
    x: "x = Some r1" and m1: "obj_prop ''messages'' r1 = JArr (as_sequence ''messages'' room @ [a])"
    by auto
  from push_update_Some[of "''messages''" b r1] assms(2) x obtain r2 where
    v: "v = Some r2" and m2: "obj_prop ''messages'' r2 = JArr (as_sequence ''messages'' r1 @ [b])"
    by auto
  from m1 have "as_sequence ''messages'' r1 = as_sequence ''messages'' room @ [a]"
    by (rule as_sequence_JArr)
  with v m2 show ?thesis by simp
qed

text \<open>
  C3. In cloud mode, two \<^verbatim>\<open>addMessage\<close> calls on the same stored room issued at the same
  time, each a transaction that the backend accepts: however the moves of the two
  clients are interleaved, and whatever the clients have in their caches, the run can
  always be brought to its end, and at its end the room has a \<^verbatim>\<open>messages\<close> array that
  holds both messages after the items it had, in one order or the other. The node is
  then what the two calls, made one after the other, leave there.
\<close>

theorem concurrent_appends_kept:
  "cloudEnabled w \<and> map_of (remoteRooms w) (''rooms/'' @ roomId) = Some room
   \<and> runs True (push_update ''messages'' m1) (push_update ''messages'' m2)
        (Some room, Waiting cache1, Waiting cache2) s \<longrightarrow>
     (\<exists>v. runs True (push_update ''messages'' m1) (push_update ''messages'' m2) s
             (v, Finished, Finished))
     \<and> (\<forall>v. s = (v, Finished, Finished) \<longrightarrow>
          (\<exists>room' messages.
             v = Some room' \<and> obj_prop ''messages'' room' = JArr messages
             \<and> m1 \<in> set messages \<and> m2 \<in> set messages
             \<and> (messages = as_sequence ''messages'' room @ [m1, m2]
                  \<or> messages = as_sequence ''messages'' room @ [m2, m1]))
          \<and> (v = map_of (remoteRooms (snd (addMessage None roomId m2
                            (snd (addMessage None roomId m1 w))))) (''rooms/'' @ roomId)
               \<or> v = map_of (remoteRooms (snd (addMessage None roomId m1
                            (snd (addMessage None roomId m2 w))))) (''rooms/'' @ roomId)))"
proof (intro impI conjI allI)
  show "\<exists>v. runs True (push_update ''messages'' m1) (push_update ''messages'' m2) s
             (v, Finished, Finished)"
    by (rule transactions_finish)
next
  fix v
  assume a: "cloudEnabled w \<and> map_of (remoteRooms w) (''rooms/'' @ roomId) = Some room
   \<and> runs True (push_update ''messages'' m1) (push_update ''messages'' m2)
        (Some room, Waiting cache1, Waiting cache2) s"
    and s: "s = (v, Finished, Finished)"
  from a s have run: "runs True (push_update ''messages'' m1) (push_update ''messages'' m2)
        (Some room, Waiting cache1, Waiting cache2) (v, Finished, Finished)" by simp
  from transactions_serial[OF push_update_total push_update_total run]
  consider x where "push_update ''messages'' m1 (Some room) = Inr x" "push_update ''messages'' m2 x = Inr v"
    | x where "push_update ''messages'' m2 (Some room) = Inr x" "push_update ''messages'' m1 x = Inr v"
    by blast
  then have "(\<exists>room' messages.
             v = Some room' \<and> obj_prop ''messages'' room' = JArr messages
             \<and> m1 \<in> set messages \<and> m2 \<in> set messages
             \<and> (messages = as_sequence ''messages'' room @ [m1, m2]
                  \<or> messages = as_sequence ''messages'' room @ [m2, m1]))
          \<and> (v = map_of (remoteRooms (snd (addMessage None roomId m2
                            (snd (addMessage None roomId m1 w))))) (''rooms/'' @ roomId)
               \<or> v = map_of (remoteRooms (snd (addMessage None roomId m1
                            (snd (addMessage None roomId m2 w))))) (''rooms/'' @ roomId))"
  proof cases
    case 1
    from push_twice[OF 1] addMessage_serial[OF conjunct1[OF a] conjunct1[OF conjunct2[OF a]] 1]
    show ?thesis by auto
  next
    case 2
    from push_twice[OF 2] addMessage_serial[OF conjunct1[OF a] conjunct1[OF conjunct2[OF a]] 2]
    show ?thesis by auto
  qed
  then show "\<exists>room' messages.
             v = Some room' \<and> obj_prop ''messages'' room' = JArr messages
             \<and> m1 \<in> set messages \<and> m2 \<in> set messages
             \<and> (messages = as_sequence ''messages'' room @ [m1, m2]
                  \<or> messages = as_sequence ''messages'' room @ [m2, m1])"
    and "v = map_of (remoteRooms (snd (addMessage None roomId m2
                            (snd (addMessage None roomId m1 w))))) (''rooms/'' @ roomId)
               \<or> v = map_of (remoteRooms (snd (addMessage None roomId m1
                            (snd (addMessage None roomId m2 w))))) (''rooms/'' @ roomId)"
    by blast+
qed

text \<open>The theorem at a room with one message, on the run in which both clients compute
  their new value from that room, the first is written, and the second, refused, is
  computed again from the room the first has left.\<close>

theorem concurrent_appends_kept_witness:
  "runs True (push_update ''messages'' (JStr ''one'')) (push_update ''messages'' (JStr ''two''))
      (Some [(''id'', JStr ''a''), (''messages'', JArr [JStr ''zero''])], Waiting (Some [(''id'', JStr ''a''), (''messages'', JArr [JStr ''zero''])]), Waiting (Some [(''id'', JStr ''a''), (''messages'', JArr [JStr ''zero''])]))
      (Some [(''id'', JStr ''a''), (''messages'', JArr [JStr ''zero'', JStr ''one'', JStr ''two''])], Finished, Finished)
   \<and> (\<exists>room' messages.
         Some [(''id'', JStr ''a''), (''messages'', JArr [JStr ''zero'', JStr ''one'', JStr ''two''])] = Some room'
         \<and> obj_prop ''messages'' room' = JArr messages
         \<and> JStr ''one'' \<in> set messages \<and> JStr ''two'' \<in> set messages
         \<and> (messages = as_sequence ''messages'' [(''id'', JStr ''a''), (''messages'', JArr [JStr ''zero''])] @ [JStr ''one'', JStr ''two'']
              \<or> messages = as_sequence ''messages'' [(''id'', JStr ''a''), (''messages'', JArr [JStr ''zero''])] @ [JStr ''two'', JStr ''one'']))"
proof -
  let ?w = "\<lparr>cloudEnabled = True, localItem = None,
       remoteRooms = [(''rooms/a'', [(''id'', JStr ''a''), (''messages'', JArr [JStr ''zero''])])],
       console = [], unhandled = [], notifications = 0\<rparr>"
  have r5: "runs True (push_update ''messages'' (JStr ''one'')) (push_update ''messages'' (JStr ''two''))
      (Some [(''id'', JStr ''a''), (''messages'', JArr [JStr ''zero'', JStr ''one'', JStr ''two''])], Finished, Finished)
      (Some [(''id'', JStr ''a''), (''messages'', JArr [JStr ''zero'', JStr ''one'', JStr ''two''])], Finished, Finished)" by (rule runs.stay)
  have r4: "runs True (push_update ''messages'' (JStr ''one'')) (push_update ''messages'' (JStr ''two''))
      (Some [(''id'', JStr ''a''), (''messages'', JArr [JStr ''zero'', JStr ''one''])], Finished, Computed (Some [(''id'', JStr ''a''), (''messages'', JArr [JStr ''zero'', JStr ''one''])]) (Some [(''id'', JStr ''a''), (''messages'', JArr [JStr ''zero'', JStr ''one'', JStr ''two''])]))
      (Some [(''id'', JStr ''a''), (''messages'', JArr [JStr ''zero'', JStr ''one'', JStr ''two''])], Finished, Finished)"
    by (rule runs.move[OF _ r5]) (simp add: push_update_def obj_prop_def)
  have r3: "runs True (push_update ''messages'' (JStr ''one'')) (push_update ''messages'' (JStr ''two''))
      (Some [(''id'', JStr ''a''), (''messages'', JArr [JStr ''zero'', JStr ''one''])], Finished, Computed (Some [(''id'', JStr ''a''), (''messages'', JArr [JStr ''zero''])]) (Some [(''id'', JStr ''a''), (''messages'', JArr [JStr ''zero'', JStr ''two''])]))
      (Some [(''id'', JStr ''a''), (''messages'', JArr [JStr ''zero'', JStr ''one'', JStr ''two''])], Finished, Finished)"
    by (rule runs.move[OF _ r4]) (simp add: push_update_def obj_prop_def)
  have r2: "runs True (push_update ''messages'' (JStr ''one'')) (push_update ''messages'' (JStr ''two''))
      (Some [(''id'', JStr ''a''), (''messages'', JArr [JStr ''zero''])], Computed (Some [(''id'', JStr ''a''), (''messages'', JArr [JStr ''zero''])]) (Some [(''id'', JStr ''a''), (''messages'', JArr [JStr ''zero'', JStr ''one''])]), Computed (Some [(''id'', JStr ''a''), (''messages'', JArr [JStr ''zero''])]) (Some [(''id'', JStr ''a''), (''messages'', JArr [JStr ''zero'', JStr ''two''])]))
      (Some [(''id'', JStr ''a''), (''messages'', JArr [JStr ''zero'', JStr ''one'', JStr ''two''])], Finished, Finished)"
    by (rule runs.move[OF _ r3]) (simp add: push_update_def obj_prop_def)
  have r1: "runs True (push_update ''messages'' (JStr ''one'')) (push_update ''messages'' (JStr ''two''))
      (Some [(''id'', JStr ''a''), (''messages'', JArr [JStr ''zero''])], Computed (Some [(''id'', JStr ''a''), (''messages'', JArr [JStr ''zero''])]) (Some [(''id'', JStr ''a''), (''messages'', JArr [JStr ''zero'', JStr ''one''])]), Waiting (Some [(''id'', JStr ''a''), (''messages'', JArr [JStr ''zero''])]))
      (Some [(''id'', JStr ''a''), (''messages'', JArr [JStr ''zero'', JStr ''one'', JStr ''two''])], Finished, Finished)"
    by (rule runs.move[OF _ r2]) (simp add: push_update_def obj_prop_def)
  have r0: "runs True (push_update ''messages'' (JStr ''one'')) (push_update ''messages'' (JStr ''two''))
      (Some [(''id'', JStr ''a''), (''messages'', JArr [JStr ''zero''])], Waiting (Some [(''id'', JStr ''a''), (''messages'', JArr [JStr ''zero''])]), Waiting (Some [(''id'', JStr ''a''), (''messages'', JArr [JStr ''zero''])]))
      (Some [(''id'', JStr ''a''), (''messages'', JArr [JStr ''zero'', JStr ''one'', JStr ''two''])], Finished, Finished)"
    by (rule runs.move[OF _ r1]) (simp add: push_update_def obj_prop_def)
  have h: "cloudEnabled ?w \<and> map_of (remoteRooms ?w) (''rooms/'' @ ''a'') = Some [(''id'', JStr ''a''), (''messages'', JArr [JStr ''zero''])]"
    by simp
  from concurrent_appends_kept[where w = ?w and roomId = "''a''" and room = "[(''id'', JStr ''a''), (''messages'', JArr [JStr ''zero''])]"
      and ?m1.0 = "JStr ''one''" and ?m2.0 = "JStr ''two''"
      and ?cache1.0 = "Some [(''id'', JStr ''a''), (''messages'', JArr [JStr ''zero''])]" and ?cache2.0 = "Some [(''id'', JStr ''a''), (''messages'', JArr [JStr ''zero''])]"
      and s = "(Some [(''id'', JStr ''a''), (''messages'', JArr [JStr ''zero'', JStr ''one'', JStr ''two''])], Finished, Finished)"] h r0
  have "\<exists>room' messages.
         Some [(''id'', JStr ''a''), (''messages'', JArr [JStr ''zero'', JStr ''one'', JStr ''two''])] = Some room'
         \<and> obj_prop ''messages'' room' = JArr messages
         \<and> JStr ''one'' \<in> set messages \<and> JStr ''two'' \<in> set messages
         \<and> (messages = as_sequence ''messages'' [(''id'', JStr ''a''), (''messages'', JArr [JStr ''zero''])] @ [JStr ''one'', JStr ''two'']
              \<or> messages = as_sequence ''messages'' [(''id'', JStr ''a''), (''messages'', JArr [JStr ''zero''])] @ [JStr ''two'', JStr ''one''])"
    by blast
  with r0 show ?thesis by blast
qed

text \<open>
  The check of the transaction is what keeps both messages. When the new value is
  written without it (a value read, changed and written back with \<^verbatim>\<open>set\<close>), the same two
  clients have a run in which both compute from the same room and the second write
  replaces the first: the room ends without the first message.
\<close>

lemma append_lost_without_check:
  "runs False (push_update ''messages'' (JStr ''one'')) (push_update ''messages'' (JStr ''two''))
      (Some [(''id'', JStr ''a''), (''messages'', JArr [JStr ''zero''])], Waiting (Some [(''id'', JStr ''a''), (''messages'', JArr [JStr ''zero''])]), Waiting (Some [(''id'', JStr ''a''), (''messages'', JArr [JStr ''zero''])]))
      (Some [(''id'', JStr ''a''), (''messages'', JArr [JStr ''zero'', JStr ''two''])], Finished, Finished)"
proof -
  have r4: "runs False (push_update ''messages'' (JStr ''one'')) (push_update ''messages'' (JStr ''two''))
      (Some [(''id'', JStr ''a''), (''messages'', JArr [JStr ''zero'', JStr ''two''])], Finished, Finished)
      (Some [(''id'', JStr ''a''), (''messages'', JArr [JStr ''zero'', JStr ''two''])], Finished, Finished)" by (rule runs.stay)
  have r3: "runs False (push_update ''messages'' (JStr ''one'')) (push_update ''messages'' (JStr ''two''))
      (Some [(''id'', JStr ''a''), (''messages'', JArr [JStr ''zero'', JStr ''one''])], Finished, Computed (Some [(''id'', JStr ''a''), (''messages'', JArr [JStr ''zero''])]) (Some [(''id'', JStr ''a''), (''messages'', JArr [JStr ''zero'', JStr ''two''])]))
      (Some [(''id'', JStr ''a''), (''messages'', JArr [JStr ''zero'', JStr ''two''])], Finished, Finished)"
    by (rule runs.move[OF _ r4]) (simp add: push_update_def obj_prop_def)
  have r2: "runs False (push_update ''messages'' (JStr ''one'')) (push_update ''messages'' (JStr ''two''))
      (Some [(''id'', JStr ''a''), (''messages'', JArr [JStr ''zero''])], Computed (Some [(''id'', JStr ''a''), (''messages'', JArr [JStr ''zero''])]) (Some [(''id'', JStr ''a''), (''messages'', JArr [JStr ''zero'', JStr ''one''])]), Computed (Some [(''id'', JStr ''a''), (''messages'', JArr [JStr ''zero''])]) (Some [(''id'', JStr ''a''), (''messages'', JArr [JStr ''zero'', JStr ''two''])]))
      (Some [(''id'', JStr ''a''), (''messages'', JArr [JStr ''zero'', JStr ''two''])], Finished, Finished)"
    by (rule runs.move[OF _ r3]) (simp add: push_update_def obj_prop_def)
  have r1: "runs False (push_update ''messages'' (JStr ''one'')) (push_update ''messages'' (JStr ''two''))
      (Some [(''id'', JStr ''a''), (''messages'', JArr [JStr ''zero''])], Computed (Some [(''id'', JStr ''a''), (''messages'', JArr [JStr ''zero''])]) (Some [(''id'', JStr ''a''), (''messages'', JArr [JStr ''zero'', JStr ''one''])]), Waiting (Some [(''id'', JStr ''a''), (''messages'', JArr [JStr ''zero''])]))
      (Some [(''id'', JStr ''a''), (''messages'', JArr [JStr ''zero'', JStr ''two''])], Finished, Finished)"
    by (rule runs.move[OF _ r2]) (simp add: push_update_def obj_prop_def)
  have r0: "runs False (push_update ''messages'' (JStr ''one'')) (push_update ''messages'' (JStr ''two''))
      (Some [(''id'', JStr ''a''), (''messages'', JArr [JStr ''zero''])], Waiting (Some [(''id'', JStr ''a''), (''messages'', JArr [JStr ''zero''])]), Waiting (Some [(''id'', JStr ''a''), (''messages'', JArr [JStr ''zero''])]))
      (Some [(''id'', JStr ''a''), (''messages'', JArr [JStr ''zero'', JStr ''two''])], Finished, Finished)"
    by (rule runs.move[OF _ r1]) (simp add: push_update_def obj_prop_def)
  show ?thesis by (rule r0)
qed

section \<open>Failures of the remote backend\<close>

lemma cloud_transaction_rejected:
  assumes "update (map_of (remoteRooms w) (''rooms/'' @ roomId)) = Inr x"
  shows "cloud_transaction (Some e) roomId update w = (Inr (), w\<lparr>unhandled := unhandled w @ [e]\<rparr>)"
  using assms by (cases x) (simp_all add: cloud_transaction_def remote_transaction_def)

text \<open>
  C4, as the code has it. In cloud mode a rejected \<^verbatim>\<open>set\<close> or \<^verbatim>\<open>remove\<close> is printed and
  reaches the caller of \<^verbatim>\<open>saveRoom\<close> and \<^verbatim>\<open>deleteRoom\<close> as the backend's error, the stored
  rooms unchanged; \<^verbatim>\<open>createRoom\<close> awaits \<^verbatim>\<open>saveRoom\<close> and fails with the same error. The
  transaction of \<^verbatim>\<open>addMessage\<close>, \<^verbatim>\<open>addMemo\<close> and \<^verbatim>\<open>deleteMemo\<close> is started and not awaited: when
  the backend rejects it, the caller is returned to without an error and the rejection
  stays unhandled. A failure of the remote subscription is printed only, and the
  subscriber keeps the rooms it had.
\<close>

theorem remote_failures:
  "cloudEnabled w \<longrightarrow>
     saveRoom (Some e) room w = (Inl e, w\<lparr>console := console w @ [e]\<rparr>)
     \<and> deleteRoom (Some e) roomId w = (Inl e, w\<lparr>console := console w @ [e]\<rparr>)
     \<and> createRoom (Some e) platform title password w = (Inl e, w\<lparr>console := console w @ [e]\<rparr>)
     \<and> addMessage (Some e) roomId message w = (Inr (), w\<lparr>unhandled := unhandled w @ [e]\<rparr>)
     \<and> addMemo (Some e) roomId memo w = (Inr (), w\<lparr>unhandled := unhandled w @ [e]\<rparr>)
     \<and> (fst (deleteMemo (Some e) roomId memoId w) = Inr () \<longrightarrow>
          deleteMemo (Some e) roomId memoId w = (Inr (), w\<lparr>unhandled := unhandled w @ [e]\<rparr>))
     \<and> subscribeToRooms True (RemoteFailure e) = Logged e
     \<and> after_delivery known (subscribeToRooms True (RemoteFailure e)) = known"
proof (intro impI conjI)
  assume c: "cloudEnabled w"
  then show "saveRoom (Some e) room w = (Inl e, w\<lparr>console := console w @ [e]\<rparr>)"
    by (simp add: saveRoom_def)
  from c show "deleteRoom (Some e) roomId w = (Inl e, w\<lparr>console := console w @ [e]\<rparr>)"
    by (simp add: deleteRoom_def)
  from c show "createRoom (Some e) platform title password w = (Inl e, w\<lparr>console := console w @ [e]\<rparr>)"
    by (simp add: createRoom_def saveRoom_def)
  from push_update_total[of "''messages''" message "map_of (remoteRooms w) (''rooms/'' @ roomId)"]
  obtain x where "push_update ''messages'' message (map_of (remoteRooms w) (''rooms/'' @ roomId)) = Inr x"
    by blast
  from cloud_transaction_rejected[where update = "push_update ''messages'' message", OF this] c
  show "addMessage (Some e) roomId message w = (Inr (), w\<lparr>unhandled := unhandled w @ [e]\<rparr>)"
    by (simp add: addMessage_def)
  from push_update_total[of "''memos''" memo "map_of (remoteRooms w) (''rooms/'' @ roomId)"]
  obtain y where "push_update ''memos'' memo (map_of (remoteRooms w) (''rooms/'' @ roomId)) = Inr y"
    by blast
  from cloud_transaction_rejected[where update = "push_update ''memos'' memo", OF this] c
  show "addMemo (Some e) roomId memo w = (Inr (), w\<lparr>unhandled := unhandled w @ [e]\<rparr>)"
    by (simp add: addMemo_def)
  show "subscribeToRooms True (RemoteFailure e) = Logged e" by simp
  show "after_delivery known (subscribeToRooms True (RemoteFailure e)) = known" by simp
next
  assume c: "cloudEnabled w" and ok: "fst (deleteMemo (Some e) roomId memoId w) = Inr ()"
  show "deleteMemo (Some e) roomId memoId w = (Inr (), w\<lparr>unhandled := unhandled w @ [e]\<rparr>)"
  proof (cases "drop_update memoId (map_of (remoteRooms w) (''rooms/'' @ roomId))")
    case (Inl err)
    with c ok show ?thesis
      by (simp add: deleteMemo_def cloud_transaction_def remote_transaction_def)
  next
    case (Inr x)
    from cloud_transaction_rejected[where update = "drop_update memoId", OF this] c
    show ?thesis by (simp add: deleteMemo_def)
  qed
qed

theorem remote_failures_witness:
  "saveRoom (Some (RemoteError ''denied'')) [(''id'', JStr ''a'')]
      \<lparr>cloudEnabled = True, localItem = None,
       remoteRooms = [(''rooms/a'', [(''id'', JStr ''a''), (''memos'', JArr [JObj [(''id'', JStr ''m1'')]])])],
       console = [], unhandled = [], notifications = 0\<rparr>
   = (Inl (RemoteError ''denied''),
      \<lparr>cloudEnabled = True, localItem = None,
       remoteRooms = [(''rooms/a'', [(''id'', JStr ''a''), (''memos'', JArr [JObj [(''id'', JStr ''m1'')]])])],
       console = [RemoteError ''denied''], unhandled = [], notifications = 0\<rparr>)
   \<and> deleteMemo (Some (RemoteError ''denied'')) ''a'' ''m1''
      \<lparr>cloudEnabled = True, localItem = None,
       remoteRooms = [(''rooms/a'', [(''id'', JStr ''a''), (''memos'', JArr [JObj [(''id'', JStr ''m1'')]])])],
       console = [], unhandled = [], notifications = 0\<rparr>
   = (Inr (),
      \<lparr>cloudEnabled = True, localItem = None,
       remoteRooms = [(''rooms/a'', [(''id'', JStr ''a''), (''memos'', JArr [JObj [(''id'', JStr ''m1'')]])])],
       console = [], unhandled = [RemoteError ''denied''], notifications = 0\<rparr>)"
proof -
  let ?w = "\<lparr>cloudEnabled = True, localItem = None,
       remoteRooms = [(''rooms/a'', [(''id'', JStr ''a''), (''memos'', JArr [JObj [(''id'', JStr ''m1'')]])])],
       console = [], unhandled = [], notifications = 0\<rparr>"
  have c: "cloudEnabled ?w" by simp
  have ok: "fst (deleteMemo (Some (RemoteError ''denied'')) ''a'' ''m1'' ?w) = Inr ()"
    by (simp add: deleteMemo_def cloud_transaction_def remote_transaction_def drop_update_def
                  obj_prop_def)
  note t = remote_failures[of ?w "RemoteError ''denied''" "[(''id'', JStr ''a'')]" "''a''"
             _ _ _ JNull JNull "''m1''" JNull]
  from t c have 1: "saveRoom (Some (RemoteError ''denied'')) [(''id'', JStr ''a'')] ?w
          = (Inl (RemoteError ''denied''), ?w\<lparr>console := console ?w @ [RemoteError ''denied'']\<rparr>)"
    by blast
  from t c ok have 2: "deleteMemo (Some (RemoteError ''denied'')) ''a'' ''m1'' ?w
          = (Inr (), ?w\<lparr>unhandled := unhandled ?w @ [RemoteError ''denied'']\<rparr>)"
    by blast
  from 1 2 show ?thesis by simp
qed

text \<open>
  The claim C4 as stated fails for the transactional operations. In cloud mode, with a
  stored room and a backend that rejects the transaction, \<^verbatim>\<open>addMessage\<close> returns normally:
  the message is not stored, the rejection is left unhandled, and the caller has nothing
  to catch.
\<close>

theorem addMessage_failure_not_propagated:
  "addMessage (Some (RemoteError ''denied'')) ''a'' (JObj [(''text'', JStr ''hi'')])
      \<lparr>cloudEnabled = True, localItem = None,
       remoteRooms = [(''rooms/a'', [(''id'', JStr ''a''), (''messages'', JArr [])])],
       console = [], unhandled = [], notifications = 0\<rparr>
   = (Inr (),
      \<lparr>cloudEnabled = True, localItem = None,
       remoteRooms = [(''rooms/a'', [(''id'', JStr ''a''), (''messages'', JArr [])])],
       console = [], unhandled = [RemoteError ''denied''], notifications = 0\<rparr>)"
  by (simp add: addMessage_def cloud_transaction_def remote_transaction_def push_update_def
                obj_prop_def)

section \<open>Creating a room\<close>

lemma findIndex_id_bound: "findIndex_id i rs = Inr (Some n) \<Longrightarrow> n < length rs"
  by (induction rs arbitrary: n) (auto split: sum.splits if_splits option.splits)

lemma findIndex_id_records: "records rs \<Longrightarrow> \<exists>r. findIndex_id i rs = Inr r"
proof (induction rs)
  case Nil then show ?case by simp
next
  case (Cons r rs)
  then obtain x where "findIndex_id i rs = Inr x" by (auto simp: records_def)
  moreover from Cons.prems obtain j where "read_prop ''id'' r = Inr j"
    by (cases r) (auto simp: records_def)
  ultimately show ?case by (cases x) auto
qed

lemma findIndex_id_absent:
  "records rs \<Longrightarrow> \<forall>r\<in>set rs. \<not> is_room roomId r \<Longrightarrow> findIndex_id (JStr roomId) rs = Inr None"
proof (induction rs)
  case Nil then show ?case by simp
next
  case (Cons r rs)
  then have "findIndex_id (JStr roomId) rs = Inr None" by (simp add: records_def)
  moreover from Cons.prems obtain j where "read_prop ''id'' r = Inr j" "\<not> strict_eq j (JStr roomId)"
    by (cases r) (auto simp: records_def is_room_def)
  ultimately show ?case by simp
qed

lemma local_upsert_mem: "local_upsert room v = Inr rooms \<Longrightarrow> JObj room \<in> set rooms"
  by (cases v) (auto split: sum.splits option.splits dest: findIndex_id_bound intro: set_update_memI)

lemma sanitize_JObj: "sanitize (JObj kvs) = JObj (sanitize_props kvs)"
  by (simp add: sanitize_props_def)

lemma getLocalRooms_stringify:
  "getLocalRooms (Some (JSON_stringify (JArr rooms)))
     = JArr (map (\<lambda>x. if x = JUndefined then JNull else sanitize x) rooms)"
  by (simp add: getLocalRooms_def JSON_stringify_def)

lemma saveRoom_local_stored:
  assumes "\<not> cloudEnabled w" "fst (saveRoom resp room w) = Inr u"
  shows "\<exists>rooms. getLocalRooms (localItem (snd (saveRoom resp room w))) = JArr rooms
                \<and> JObj (sanitize_props room) \<in> set rooms"
proof (cases "local_upsert room (getLocalRooms (localItem w))")
  case (Inl e)
  with assms show ?thesis by (simp add: saveRoom_def)
next
  case (Inr rooms)
  from local_upsert_mem[OF Inr]
  have "JObj (sanitize_props room) \<in> set (map (\<lambda>x. if x = JUndefined then JNull else sanitize x) rooms)"
    by (force simp: sanitize_props_def)
  with assms Inr show ?thesis by (simp add: saveRoom_def getLocalRooms_stringify)
qed

lemma saveRoom_cloud_stored:
  assumes "cloudEnabled w" "fst (saveRoom resp room w) = Inr u"
  shows "map_of (remoteRooms (snd (saveRoom resp room w))) (''rooms/'' @ to_str (obj_prop ''id'' room))
           = Some (sanitize_props room)"
  using assms by (cases resp) (simp_all add: saveRoom_def map_of_remote_set)

lemma saveRoom_local_fresh:
  assumes "\<not> cloudEnabled w" "getLocalRooms (localItem w) = JArr rooms" "records rooms"
    "json_item (localItem w)" "\<forall>r\<in>set rooms. \<not> is_room roomId r" "obj_prop ''id'' room = JStr roomId"
  shows "getLocalRooms (localItem (snd (saveRoom resp room w)))
           = JArr (rooms @ [JObj (sanitize_props room)])"
proof -
  from assms getLocalRooms_json[of "localItem w"] have "is_json (JArr rooms)" by simp
  then have "map (\<lambda>x. if x = JUndefined then JNull else sanitize x) rooms = rooms"
    by (simp add: is_json_def)
  with assms show ?thesis
    by (simp add: saveRoom_def findIndex_id_absent getLocalRooms_stringify sanitize_props_def)
qed

lemma remote_set_fresh: "map_of kvs k = None \<Longrightarrow> remote_set k v kvs = kvs @ [(k, v)]"
  by (induction kvs) (auto split: if_splits)

lemma newRoom_id: "obj_prop ''id'' (newRoom e title password) = JStr (uniqueId e)"
  by (simp add: newRoom_def obj_prop_def)

lemma createRoom_result:
  "fst (createRoom resp e title password w) = Inr room \<Longrightarrow>
     room = newRoom e title password
     \<and> fst (saveRoom resp (newRoom e title password) w) = Inr ()
     \<and> snd (createRoom resp e title password w) = snd (saveRoom resp (newRoom e title password) w)"
  by (auto simp: createRoom_def split: prod.splits sum.splits)

lemma createRoom_snd:
  "snd (createRoom resp e title password w) = snd (saveRoom resp (newRoom e title password) w)"
  by (cases "saveRoom resp (newRoom e title password) w")
     (auto simp: createRoom_def split: sum.splits)

text \<open>
  C1, as the code has it. Whenever \<^verbatim>\<open>createRoom\<close> returns a record, the record is the new
  room: its identifier is the one the platform yields (\<^verbatim>\<open>crypto.randomUUID()\<close> when there is
  one, otherwise \<^verbatim>\<open>room_\<close>, the clock, an underscore and seven characters of
  \<^verbatim>\<open>Math.random\<close>), its title is the given one, its messages are exactly one message, sent by
  System with type system, whose text is the date line; and the write has been done:
  the remote node, or the local collection, holds the record (without the properties
  that are \<^verbatim>\<open>undefined\<close>). A record is returned when the backend accepts the write (cloud
  mode) or the stored collection is a list of records (local mode); a rejected write is
  the failure of \<^verbatim>\<open>createRoom\<close>. When no stored room has the identifier, the room is added
  after the stored rooms, which stay as they are.
\<close>

theorem createRoom_record:
  "(fst (createRoom resp e title password w) = Inr room \<longrightarrow>
      room = newRoom e title password
      \<and> obj_prop ''id'' room = JStr (uniqueId e)
      \<and> obj_prop ''title'' room = JStr title
      \<and> obj_prop ''messages'' room =
          JArr [JObj [(''id'', JStr (messageRandom e)), (''senderName'', JStr ''System''),
                      (''role'', role_value ADMIN), (''text'', JStr (dateText e)),
                      (''timestamp'', JNum (messageClock e)), (''type'', JStr ''system'')]]
      \<and> (cloudEnabled w \<longrightarrow>
           map_of (remoteRooms (snd (createRoom resp e title password w)))
             (''rooms/'' @ uniqueId e) = Some (sanitize_props room))
      \<and> (\<not> cloudEnabled w \<longrightarrow>
           (\<exists>rooms. getLocalRooms (localItem (snd (createRoom resp e title password w))) = JArr rooms
                    \<and> JObj (sanitize_props room) \<in> set rooms)))
   \<and> (cloudEnabled w \<longrightarrow>
        fst (createRoom None e title password w) = Inr (newRoom e title password)
        \<and> fst (createRoom (Some err) e title password w) = Inl err)
   \<and> (\<not> cloudEnabled w \<and> getLocalRooms (localItem w) = JArr stored_rooms \<and> records stored_rooms \<longrightarrow>
        fst (createRoom resp e title password w) = Inr (newRoom e title password))
   \<and> (\<not> cloudEnabled w \<and> getLocalRooms (localItem w) = JArr stored_rooms \<and> records stored_rooms
        \<and> json_item (localItem w) \<and> (\<forall>r\<in>set stored_rooms. \<not> is_room (uniqueId e) r) \<longrightarrow>
        getLocalRooms (localItem (snd (createRoom resp e title password w)))
          = JArr (stored_rooms @ [JObj (sanitize_props (newRoom e title password))]))
   \<and> (cloudEnabled w \<and> map_of (remoteRooms w) (''rooms/'' @ uniqueId e) = None \<longrightarrow>
        remoteRooms (snd (createRoom None e title password w))
          = remoteRooms w @ [(''rooms/'' @ uniqueId e, sanitize_props (newRoom e title password))])
   \<and> (randomUUID e = Some uuid \<longrightarrow> uniqueId e = uuid)
   \<and> (randomUUID e = None \<longrightarrow>
        uniqueId e = ''room_'' @ dec_int (idClock e) @ ''_'' @ take 7 (drop 2 (idRandom e)))"
proof (intro conjI impI)
  assume r: "fst (createRoom resp e title password w) = Inr room"
  note c = createRoom_result[OF r]
  from c show "room = newRoom e title password" by simp
  from c show "obj_prop ''id'' room = JStr (uniqueId e)" by (simp add: newRoom_id)
  from c show "obj_prop ''title'' room = JStr title" by (simp add: newRoom_def obj_prop_def)
  from c show "obj_prop ''messages'' room =
          JArr [JObj [(''id'', JStr (messageRandom e)), (''senderName'', JStr ''System''),
                      (''role'', role_value ADMIN), (''text'', JStr (dateText e)),
                      (''timestamp'', JNum (messageClock e)), (''type'', JStr ''system'')]]"
    by (simp add: newRoom_def obj_prop_def)
  {
    assume cl: "cloudEnabled w"
    from saveRoom_cloud_stored[OF cl, of resp "newRoom e title password" "()"] c
    show "map_of (remoteRooms (snd (createRoom resp e title password w)))
             (''rooms/'' @ uniqueId e) = Some (sanitize_props room)"
      by (simp add: newRoom_id)
  }
  {
    assume lo: "\<not> cloudEnabled w"
    from saveRoom_local_stored[OF lo, of resp "newRoom e title password" "()"] c
    show "\<exists>rooms. getLocalRooms (localItem (snd (createRoom resp e title password w))) = JArr rooms
                    \<and> JObj (sanitize_props room) \<in> set rooms"
      by simp
  }
next
  assume "cloudEnabled w"
  then show "fst (createRoom None e title password w) = Inr (newRoom e title password)"
    and "fst (createRoom (Some err) e title password w) = Inl err"
    by (simp_all add: createRoom_def saveRoom_def)
next
  assume a: "\<not> cloudEnabled w \<and> getLocalRooms (localItem w) = JArr stored_rooms \<and> records stored_rooms"
  then obtain x where "findIndex_id (obj_prop ''id'' (newRoom e title password)) stored_rooms = Inr x"
    using findIndex_id_records by blast
  with a show "fst (createRoom resp e title password w) = Inr (newRoom e title password)"
    by (cases x) (simp_all add: createRoom_def saveRoom_def)
next
  assume a: "\<not> cloudEnabled w \<and> getLocalRooms (localItem w) = JArr stored_rooms \<and> records stored_rooms
        \<and> json_item (localItem w) \<and> (\<forall>r\<in>set stored_rooms. \<not> is_room (uniqueId e) r)"
  then have "getLocalRooms (localItem (snd (saveRoom resp (newRoom e title password) w)))
           = JArr (stored_rooms @ [JObj (sanitize_props (newRoom e title password))])"
    by (intro saveRoom_local_fresh[where roomId = "uniqueId e"]) (simp_all add: newRoom_id)
  then show "getLocalRooms (localItem (snd (createRoom resp e title password w)))
          = JArr (stored_rooms @ [JObj (sanitize_props (newRoom e title password))])"
    by (simp add: createRoom_snd)
next
  assume "cloudEnabled w \<and> map_of (remoteRooms w) (''rooms/'' @ uniqueId e) = None"
  then show "remoteRooms (snd (createRoom None e title password w))
          = remoteRooms w @ [(''rooms/'' @ uniqueId e, sanitize_props (newRoom e title password))]"
    by (simp add: createRoom_def saveRoom_def newRoom_id remote_set_fresh)
next
  assume "randomUUID e = Some uuid" then show "uniqueId e = uuid" by (simp add: uniqueId_def)
next
  assume "randomUUID e = None"
  then show "uniqueId e = ''room_'' @ dec_int (idClock e) @ ''_'' @ take 7 (drop 2 (idRandom e))"
    by (simp add: uniqueId_def)
qed

text \<open>The theorem at a first room created in local mode on 7 March 2025, without
  \<^verbatim>\<open>crypto.randomUUID\<close> and without password.\<close>

theorem createRoom_record_witness:
  "fst (createRoom None
       \<lparr>fullYear = 2025, month = 2, date = 7, randomUUID = None, idClock = 1741305600000,
        idRandom = ''0.k3j2h4g5f6'', messageRandom = ''0.4fzyo82mvyr'',
        messageClock = 1741305600001, createdClock = 1741305600002\<rparr>
       ''Lobby'' None
       \<lparr>cloudEnabled = False, localItem = None, remoteRooms = [], console = [],
        unhandled = [], notifications = 0\<rparr>)
   = Inr [(''id'', JStr ''room_1741305600000_k3j2h4g''),
      (''title'', JStr ''Lobby''),
      (''password'', JUndefined),
      (''messages'',
         JArr [JObj [(''id'', JStr ''0.4fzyo82mvyr''), (''senderName'', JStr ''System''),
                     (''role'', JStr ''ADMIN''),
                     (''text'', JStr (''2025'' @ [CHR 0xEB, CHR 0x85, CHR 0x84] @ '' 3'' @ [CHR 0xEC, CHR 0x9B, CHR 0x94] @ '' 7'' @ [CHR 0xEC, CHR 0x9D, CHR 0xBC])),
                     (''timestamp'', JNum 1741305600001), (''type'', JStr ''system'')]]),
      (''memos'', JArr []),
      (''createdAt'', JNum 1741305600002),
      (''createdBy'', JStr ''AI Bot'')]
   \<and> (\<exists>rooms. getLocalRooms (localItem (snd (createRoom None
       \<lparr>fullYear = 2025, month = 2, date = 7, randomUUID = None, idClock = 1741305600000,
        idRandom = ''0.k3j2h4g5f6'', messageRandom = ''0.4fzyo82mvyr'',
        messageClock = 1741305600001, createdClock = 1741305600002\<rparr>
       ''Lobby'' None
       \<lparr>cloudEnabled = False, localItem = None, remoteRooms = [], console = [],
        unhandled = [], notifications = 0\<rparr>))) = JArr rooms
         \<and> JObj [(''id'', JStr ''room_1741305600000_k3j2h4g''),
      (''title'', JStr ''Lobby''),
      (''messages'',
         JArr [JObj [(''id'', JStr ''0.4fzyo82mvyr''), (''senderName'', JStr ''System''),
                     (''role'', JStr ''ADMIN''),
                     (''text'', JStr (''2025'' @ [CHR 0xEB, CHR 0x85, CHR 0x84] @ '' 3'' @ [CHR 0xEC, CHR 0x9B, CHR 0x94] @ '' 7'' @ [CHR 0xEC, CHR 0x9D, CHR 0xBC])),
                     (''timestamp'', JNum 1741305600001), (''type'', JStr ''system'')]]),
      (''memos'', JArr []),
      (''createdAt'', JNum 1741305600002),
      (''createdBy'', JStr ''AI Bot'')] \<in> set rooms)
   \<and> getLocalRooms (localItem (snd (createRoom None
       \<lparr>fullYear = 2025, month = 2, date = 7, randomUUID = None, idClock = 1741305600000,
        idRandom = ''0.k3j2h4g5f6'', messageRandom = ''0.4fzyo82mvyr'',
        messageClock = 1741305600001, createdClock = 1741305600002\<rparr>
       ''Lobby'' None
       \<lparr>cloudEnabled = False, localItem = None, remoteRooms = [], console = [],
        unhandled = [], notifications = 0\<rparr>)))
     = JArr [JObj [(''id'', JStr ''room_1741305600000_k3j2h4g''),
      (''title'', JStr ''Lobby''),
      (''messages'',
         JArr [JObj [(''id'', JStr ''0.4fzyo82mvyr''), (''senderName'', JStr ''System''),
                     (''role'', JStr ''ADMIN''),
                     (''text'', JStr (''2025'' @ [CHR 0xEB, CHR 0x85, CHR 0x84] @ '' 3'' @ [CHR 0xEC, CHR 0x9B, CHR 0x94] @ '' 7'' @ [CHR 0xEC, CHR 0x9D, CHR 0xBC])),
                     (''timestamp'', JNum 1741305600001), (''type'', JStr ''system'')]]),
      (''memos'', JArr []),
      (''createdAt'', JNum 1741305600002),
      (''createdBy'', JStr ''AI Bot'')]]"
proof -
  let ?e = "\<lparr>fullYear = 2025, month = 2, date = 7, randomUUID = None, idClock = 1741305600000,
        idRandom = ''0.k3j2h4g5f6'', messageRandom = ''0.4fzyo82mvyr'',
        messageClock = 1741305600001, createdClock = 1741305600002\<rparr>"
  let ?w = "\<lparr>cloudEnabled = False, localItem = None, remoteRooms = [], console = [],
        unhandled = [], notifications = 0\<rparr>"
  let ?room = "[(''id'', JStr ''room_1741305600000_k3j2h4g''),
      (''title'', JStr ''Lobby''),
      (''password'', JUndefined),
      (''messages'',
         JArr [JObj [(''id'', JStr ''0.4fzyo82mvyr''), (''senderName'', JStr ''System''),
                     (''role'', JStr ''ADMIN''),
                     (''text'', JStr (''2025'' @ [CHR 0xEB, CHR 0x85, CHR 0x84] @ '' 3'' @ [CHR 0xEC, CHR 0x9B, CHR 0x94] @ '' 7'' @ [CHR 0xEC, CHR 0x9D, CHR 0xBC])),
                     (''timestamp'', JNum 1741305600001), (''type'', JStr ''system'')]]),
      (''memos'', JArr []),
      (''createdAt'', JNum 1741305600002),
      (''createdBy'', JStr ''AI Bot'')]"
  have n: "newRoom ?e ''Lobby'' None = ?room"
    by (simp add: newRoom_def uniqueId_def dateText_def dec_int_def)
  have s: "sanitize_props ?room = [(''id'', JStr ''room_1741305600000_k3j2h4g''),
      (''title'', JStr ''Lobby''),
      (''messages'',
         JArr [JObj [(''id'', JStr ''0.4fzyo82mvyr''), (''senderName'', JStr ''System''),
                     (''role'', JStr ''ADMIN''),
                     (''text'', JStr (''2025'' @ [CHR 0xEB, CHR 0x85, CHR 0x84] @ '' 3'' @ [CHR 0xEC, CHR 0x9B, CHR 0x94] @ '' 7'' @ [CHR 0xEC, CHR 0x9D, CHR 0xBC])),
                     (''timestamp'', JNum 1741305600001), (''type'', JStr ''system'')]]),
      (''memos'', JArr []),
      (''createdAt'', JNum 1741305600002),
      (''createdBy'', JStr ''AI Bot'')]"
    by (simp add: sanitize_props_def)
  have l: "\<not> cloudEnabled ?w \<and> getLocalRooms (localItem ?w) = JArr [] \<and> records []
        \<and> json_item (localItem ?w) \<and> (\<forall>r\<in>set []. \<not> is_room (uniqueId ?e) r)"
    by (simp add: getLocalRooms_def records_def json_item_def)
  note t = createRoom_record[where resp = None and e = ?e and title = "''Lobby''"
      and password = None and w = ?w and room = ?room and stored_rooms = "[]"]
  from t l n have 1: "fst (createRoom None ?e ''Lobby'' None ?w) = Inr ?room" by metis
  from t 1 l have 2: "\<exists>rooms. getLocalRooms (localItem (snd (createRoom None ?e ''Lobby'' None ?w))) = JArr rooms
         \<and> JObj (sanitize_props ?room) \<in> set rooms" by blast
  from t l have 3: "getLocalRooms (localItem (snd (createRoom None ?e ''Lobby'' None ?w)))
          = JArr ([] @ [JObj (sanitize_props (newRoom ?e ''Lobby'' None))])" by blast
  from 1 2 3 show ?thesis unfolding n s by simp
qed

text \<open>
  The claim C1 as stated fails on the uniqueness of the identifier. Without
  \<^verbatim>\<open>crypto.randomUUID\<close> the identifier is made of the clock and of seven characters of
  \<^verbatim>\<open>Math.random\<close>, and nothing compares it with the stored rooms: two calls that read the
  same millisecond and the same random characters return two records with one
  identifier, and the second record replaces the first in the store.
\<close>

theorem createRoom_identifier_reused:
  "fst (createRoom None
       \<lparr>fullYear = 2025, month = 2, date = 7, randomUUID = None, idClock = 1741305600000,
        idRandom = ''0.k3j2h4g5f6'', messageRandom = ''0.4fzyo82mvyr'',
        messageClock = 1741305600001, createdClock = 1741305600002\<rparr>
       ''Lobby'' None
       \<lparr>cloudEnabled = False, localItem = None, remoteRooms = [], console = [],
        unhandled = [], notifications = 0\<rparr>)
   = Inr [(''id'', JStr ''room_1741305600000_k3j2h4g''),
      (''title'', JStr ''Lobby''),
      (''password'', JUndefined),
      (''messages'',
         JArr [JObj [(''id'', JStr ''0.4fzyo82mvyr''), (''senderName'', JStr ''System''),
                     (''role'', JStr ''ADMIN''),
                     (''text'', JStr (''2025'' @ [CHR 0xEB, CHR 0x85, CHR 0x84] @ '' 3'' @ [CHR 0xEC, CHR 0x9B, CHR 0x94] @ '' 7'' @ [CHR 0xEC, CHR 0x9D, CHR 0xBC])),
                     (''timestamp'', JNum 1741305600001), (''type'', JStr ''system'')]]),
      (''memos'', JArr []),
      (''createdAt'', JNum 1741305600002),
      (''createdBy'', JStr ''AI Bot'')]
   \<and> fst (createRoom None
       \<lparr>fullYear = 2025, month = 2, date = 7, randomUUID = None, idClock = 1741305600000,
        idRandom = ''0.k3j2h4g5f6'', messageRandom = ''0.4fzyo82mvyr'',
        messageClock = 1741305600001, createdClock = 1741305600002\<rparr>
       ''Second'' None
       (snd (createRoom None
       \<lparr>fullYear = 2025, month = 2, date = 7, randomUUID = None, idClock = 1741305600000,
        idRandom = ''0.k3j2h4g5f6'', messageRandom = ''0.4fzyo82mvyr'',
        messageClock = 1741305600001, createdClock = 1741305600002\<rparr>
       ''Lobby'' None
       \<lparr>cloudEnabled = False, localItem = None, remoteRooms = [], console = [],
        unhandled = [], notifications = 0\<rparr>)))
   = Inr [(''id'', JStr ''room_1741305600000_k3j2h4g''),
      (''title'', JStr ''Second''),
      (''password'', JUndefined),
      (''messages'',
         JArr [JObj [(''id'', JStr ''0.4fzyo82mvyr''), (''senderName'', JStr ''System''),
                     (''role'', JStr ''ADMIN''),
                     (''text'', JStr (''2025'' @ [CHR 0xEB, CHR 0x85, CHR 0x84] @ '' 3'' @ [CHR 0xEC, CHR 0x9B, CHR 0x94] @ '' 7'' @ [CHR 0xEC, CHR 0x9D, CHR 0xBC])),
                     (''timestamp'', JNum 1741305600001), (''type'', JStr ''system'')]]),
      (''memos'', JArr []),
      (''createdAt'', JNum 1741305600002),
      (''createdBy'', JStr ''AI Bot'')]
   \<and> getLocalRooms (localItem (snd (createRoom None
       \<lparr>fullYear = 2025, month = 2, date = 7, randomUUID = None, idClock = 1741305600000,
        idRandom = ''0.k3j2h4g5f6'', messageRandom = ''0.4fzyo82mvyr'',
        messageClock = 1741305600001, createdClock = 1741305600002\<rparr>
       ''Second'' None
       (snd (createRoom None
       \<lparr>fullYear = 2025, month = 2, date = 7, randomUUID = None, idClock = 1741305600000,
        idRandom = ''0.k3j2h4g5f6'', messageRandom = ''0.4fzyo82mvyr'',
        messageClock = 1741305600001, createdClock = 1741305600002\<rparr>
       ''Lobby'' None
       \<lparr>cloudEnabled = False, localItem = None, remoteRooms = [], console = [],
        unhandled = [], notifications = 0\<rparr>)))))
     = JArr [JObj [(''id'', JStr ''room_1741305600000_k3j2h4g''),
      (''title'', JStr ''Second''),
      (''messages'',
         JArr [JObj [(''id'', JStr ''0.4fzyo82mvyr''), (''senderName'', JStr ''System''),
                     (''role'', JStr ''ADMIN''),
                     (''text'', JStr (''2025'' @ [CHR 0xEB, CHR 0x85, CHR 0x84] @ '' 3'' @ [CHR 0xEC, CHR 0x9B, CHR 0x94] @ '' 7'' @ [CHR 0xEC, CHR 0x9D, CHR 0xBC])),
                     (''timestamp'', JNum 1741305600001), (''type'', JStr ''system'')]]),
      (''memos'', JArr []),
      (''createdAt'', JNum 1741305600002),
      (''createdBy'', JStr ''AI Bot'')]]"
  by (simp add: createRoom_def saveRoom_def newRoom_def uniqueId_def dateText_def dec_int_def
                getLocalRooms_def JSON_stringify_def obj_prop_def)

section \<open>Export and import of a room\<close>

lemma sanitize_props_json: "is_json (JObj room) \<Longrightarrow> sanitize_props room = room"
  by (simp add: is_json_def sanitize_props_def)

lemma saveRoom_local_ok:
  assumes "\<not> cloudEnabled w" "getLocalRooms (localItem w) = JArr rooms" "records rooms"
  shows "fst (saveRoom resp room w) = Inr ()"
proof -
  from findIndex_id_records[OF assms(3), of "obj_prop ''id'' room"]
  obtain x where "findIndex_id (obj_prop ''id'' room) rooms = Inr x" by blast
  with assms show ?thesis by (cases x) (simp_all add: saveRoom_def)
qed

lemma detached_ok: "fst r = Inr u \<Longrightarrow> detached r = snd r"
  by (simp add: detached_def)

lemma export_json:
  "is_json (JObj room) \<Longrightarrow> obj_prop ''title'' room = JStr title \<Longrightarrow>
   handleExportRoom room = Inr (replace_spaces title @ ''_data.json'', JsonText (JObj room))"
  by (simp add: handleExportRoom_def JSON_stringify_def is_json_def)

text \<open>
  C6, as the code has it. A room record that is JSON data, with a non-empty string as
  title and a truthy identifier, is exported to a file whose text is the JSON text of
  the record; importing that file reports success and stores the record itself, hence
  with the original identifier, title, messages and memos: in local mode (the stored
  collection being a list of records) the collection read back holds it, in cloud mode
  (the backend accepting the write) the node of its identifier holds it.
\<close>

theorem export_import_roundtrip:
  "is_json (JObj room) \<and> obj_prop ''title'' room = JStr title \<and> title \<noteq> []
     \<and> truthy (obj_prop ''id'' room) \<longrightarrow>
     handleExportRoom room = Inr (replace_spaces title @ ''_data.json'', JsonText (JObj room))
     \<and> (\<forall>name exported. handleExportRoom room = Inr (name, exported) \<longrightarrow>
          (\<not> cloudEnabled w \<and> getLocalRooms (localItem w) = JArr stored_rooms
             \<and> records stored_rooms \<longrightarrow>
             fst (handleFileChange resp exported w) = ImportSucceeded
             \<and> (\<exists>rooms. getLocalRooms (localItem (snd (handleFileChange resp exported w))) = JArr rooms
                      \<and> JObj room \<in> set rooms))
          \<and> (cloudEnabled w \<longrightarrow>
             fst (handleFileChange None exported w) = ImportSucceeded
             \<and> map_of (remoteRooms (snd (handleFileChange None exported w)))
                  (''rooms/'' @ to_str (obj_prop ''id'' room)) = Some room))"
proof (intro impI conjI allI)
  assume a: "is_json (JObj room) \<and> obj_prop ''title'' room = JStr title \<and> title \<noteq> []
     \<and> truthy (obj_prop ''id'' room)"
  then show ex: "handleExportRoom room = Inr (replace_spaces title @ ''_data.json'', JsonText (JObj room))"
    by (simp add: export_json)
  from a have imp: "\<And>r v. importRoom r (JObj room) v = (True, detached (saveRoom r room v))"
    by simp
  from a have sp: "sanitize_props room = room" by (simp add: sanitize_props_json)
  fix name exported
  assume "handleExportRoom room = Inr (name, exported)"
  with ex have exported: "exported = JsonText (JObj room)" by simp
  {
    assume l: "\<not> cloudEnabled w \<and> getLocalRooms (localItem w) = JArr stored_rooms
             \<and> records stored_rooms"
    then have ok: "fst (saveRoom resp room w) = Inr ()"
      using saveRoom_local_ok by blast
    from exported imp show "fst (handleFileChange resp exported w) = ImportSucceeded"
      by (simp add: handleFileChange_def)
    from saveRoom_local_stored[OF conjunct1[OF l] ok] sp
    have "\<exists>rooms. getLocalRooms (localItem (snd (saveRoom resp room w))) = JArr rooms
                \<and> JObj room \<in> set rooms" by simp
    with exported imp ok
    show "\<exists>rooms. getLocalRooms (localItem (snd (handleFileChange resp exported w))) = JArr rooms
                      \<and> JObj room \<in> set rooms"
      by (simp add: handleFileChange_def detached_ok)
  }
  {
    assume c: "cloudEnabled w"
    then have ok: "fst (saveRoom None room w) = Inr ()" by (simp add: saveRoom_def)
    from exported imp show "fst (handleFileChange None exported w) = ImportSucceeded"
      by (simp add: handleFileChange_def)
    from saveRoom_cloud_stored[OF c ok] sp exported imp ok
    show "map_of (remoteRooms (snd (handleFileChange None exported w)))
                  (''rooms/'' @ to_str (obj_prop ''id'' room)) = Some room"
      by (simp add: handleFileChange_def detached_ok)
  }
qed

text \<open>The theorem at a room with one message, imported in local mode into a store
  that holds another room.\<close>

theorem export_import_roundtrip_witness:
  "handleExportRoom
     [(''id'', JStr ''r1''), (''title'', JStr ''My  Room''),
      (''messages'', JArr [JObj [(''id'', JStr ''m1''), (''text'', JStr ''hi'')]]),
      (''memos'', JArr [])]
   = Inr (''My_Room_data.json'', JsonText (JObj
     [(''id'', JStr ''r1''), (''title'', JStr ''My  Room''),
      (''messages'', JArr [JObj [(''id'', JStr ''m1''), (''text'', JStr ''hi'')]]),
      (''memos'', JArr [])]))
   \<and> fst (handleFileChange None (JsonText (JObj
     [(''id'', JStr ''r1''), (''title'', JStr ''My  Room''),
      (''messages'', JArr [JObj [(''id'', JStr ''m1''), (''text'', JStr ''hi'')]]),
      (''memos'', JArr [])]))
     \<lparr>cloudEnabled = False,
       localItem = Some (JsonText (JArr [JObj [(''id'', JStr ''r0''), (''title'', JStr ''Old'')]])),
       remoteRooms = [], console = [], unhandled = [], notifications = 0\<rparr>) = ImportSucceeded
   \<and> (\<exists>rooms. getLocalRooms (localItem (snd (handleFileChange None (JsonText (JObj
     [(''id'', JStr ''r1''), (''title'', JStr ''My  Room''),
      (''messages'', JArr [JObj [(''id'', JStr ''m1''), (''text'', JStr ''hi'')]]),
      (''memos'', JArr [])]))
     \<lparr>cloudEnabled = False,
       localItem = Some (JsonText (JArr [JObj [(''id'', JStr ''r0''), (''title'', JStr ''Old'')]])),
       remoteRooms = [], console = [], unhandled = [], notifications = 0\<rparr>))) = JArr rooms
       \<and> JObj [(''id'', JStr ''r1''), (''title'', JStr ''My  Room''),
      (''messages'', JArr [JObj [(''id'', JStr ''m1''), (''text'', JStr ''hi'')]]),
      (''memos'', JArr [])] \<in> set rooms)"
proof -
  let ?room = "[(''id'', JStr ''r1''), (''title'', JStr ''My  Room''),
      (''messages'', JArr [JObj [(''id'', JStr ''m1''), (''text'', JStr ''hi'')]]),
      (''memos'', JArr [])]"
  let ?w = "\<lparr>cloudEnabled = False,
       localItem = Some (JsonText (JArr [JObj [(''id'', JStr ''r0''), (''title'', JStr ''Old'')]])),
       remoteRooms = [], console = [], unhandled = [], notifications = 0\<rparr>"
  let ?stored = "[JObj [(''id'', JStr ''r0''), (''title'', JStr ''Old'')]]"
  have h: "is_json (JObj ?room) \<and> obj_prop ''title'' ?room = JStr ''My  Room'' \<and> ''My  Room'' \<noteq> []
     \<and> truthy (obj_prop ''id'' ?room)"
    by (simp add: is_json_def obj_prop_def)
  have l: "\<not> cloudEnabled ?w \<and> getLocalRooms (localItem ?w) = JArr ?stored \<and> records ?stored"
    by (simp add: getLocalRooms_def records_def)
  have n: "replace_spaces ''My  Room'' @ ''_data.json'' = ''My_Room_data.json''"
    by (simp add: replace_spaces_def is_space_def)
  note t = export_import_roundtrip[where room = ?room and title = "''My  Room''" and w = ?w
      and stored_rooms = ?stored and resp = None]
  from t h have 1: "handleExportRoom ?room
      = Inr (replace_spaces ''My  Room'' @ ''_data.json'', JsonText (JObj ?room))" by blast
  from t h 1 l have 2: "fst (handleFileChange None (JsonText (JObj ?room)) ?w) = ImportSucceeded"
    by blast
  from t h 1 l have 3: "\<exists>rooms. getLocalRooms (localItem (snd (handleFileChange None
      (JsonText (JObj ?room)) ?w))) = JArr rooms \<and> JObj ?room \<in> set rooms"
    by blast
  from 1 2 3 show ?thesis unfolding n by blast
qed

text \<open>
  The claim C6 as stated fails for a room whose title is the empty string: the export
  writes the file, and the import of that file refuses it (the title is falsy) and
  stores nothing.
\<close>

theorem empty_title_not_imported:
  "handleExportRoom
     [(''id'', JStr ''r1''), (''title'', JStr []),
      (''messages'', JArr [JObj [(''id'', JStr ''m1''), (''text'', JStr ''hi'')]]),
      (''memos'', JArr [])]
   = Inr (''_data.json'', JsonText (JObj
     [(''id'', JStr ''r1''), (''title'', JStr []),
      (''messages'', JArr [JObj [(''id'', JStr ''m1''), (''text'', JStr ''hi'')]]),
      (''memos'', JArr [])]))
   \<and> handleFileChange None (JsonText (JObj
     [(''id'', JStr ''r1''), (''title'', JStr []),
      (''messages'', JArr [JObj [(''id'', JStr ''m1''), (''text'', JStr ''hi'')]]),
      (''memos'', JArr [])]))
     \<lparr>cloudEnabled = False,
       localItem = Some (JsonText (JArr [JObj [(''id'', JStr ''r0''), (''title'', JStr ''Old'')]])),
       remoteRooms = [], console = [], unhandled = [], notifications = 0\<rparr>
   = (InvalidRoomFile,
     \<lparr>cloudEnabled = False,
       localItem = Some (JsonText (JArr [JObj [(''id'', JStr ''r0''), (''title'', JStr ''Old'')]])),
       remoteRooms = [], console = [], unhandled = [], notifications = 0\<rparr>)"
  by (simp add: handleExportRoom_def handleFileChange_def JSON_stringify_def obj_prop_def
                replace_spaces_def)

section \<open>The success flag of an import\<close>

lemma importRoom_refused:
  "fst (importRoom resp roomData w) = False \<Longrightarrow> snd (importRoom resp roomData w) = w"
  by (cases roomData) (auto split: if_splits)

lemma importRoom_lacking:
  "read_prop ''id'' roomData = Inr JUndefined \<or> read_prop ''title'' roomData = Inr JUndefined
   \<Longrightarrow> importRoom resp roomData w = (False, w)"
  by (cases roomData) (auto simp: obj_prop_def)

text \<open>
  C7 at a failing input. In cloud mode, with a backend that rejects the write,
  \<^verbatim>\<open>importRoom\<close> returns true for a room that has an identifier and a title, while the
  remote rooms are what they were: the rejection of the write, which \<^verbatim>\<open>saveRoom\<close> printed
  and threw again, is caught by nobody.
\<close>

theorem importRoom_true_without_upsert:
  "importRoom (Some (RemoteError ''denied'')) (JObj
     [(''id'', JStr ''r1''), (''title'', JStr ''My  Room''),
      (''messages'', JArr [JObj [(''id'', JStr ''m1''), (''text'', JStr ''hi'')]]),
      (''memos'', JArr [])])
     \<lparr>cloudEnabled = True, localItem = None,
       remoteRooms = [(''rooms/r0'', [(''id'', JStr ''r0''), (''title'', JStr ''Old'')])],
       console = [], unhandled = [], notifications = 0\<rparr>
   = (True,
     \<lparr>cloudEnabled = True, localItem = None,
       remoteRooms = [(''rooms/r0'', [(''id'', JStr ''r0''), (''title'', JStr ''Old'')])],
       console = [RemoteError ''denied''], unhandled = [RemoteError ''denied''], notifications = 0\<rparr>)"
  by (simp add: saveRoom_def detached_def obj_prop_def)

section \<open>The database URL in the credential setup\<close>

text \<open>Whatever is pasted and answered, a configuration handed to \<^verbatim>\<open>onSave\<close> has an API
  key, a project identifier and a database URL.\<close>

lemma handleSave_saved:
  "saved (handleSave evaluated configJson confirm probe) = Some c \<Longrightarrow>
     truthy (obj_prop ''databaseURL'' c) \<and> truthy (obj_prop ''apiKey'' c)
     \<and> truthy (obj_prop ''projectId'' c)"
  by (auto simp: handleSave_def connect_def failed_def Let_def obj_prop_assign
           split: sum.splits option.splits if_splits)

text \<open>
  C8. For a parsed configuration with a project identifier and without database URL:
  when the required fields are there, the URL
  \<^verbatim>\<open>https://<projectId>-default-rtdb.firebaseio.com\<close> is proposed to the user, once; when
  the user declines it (or would), the dialog shows an error naming the missing field
  (\<^verbatim>\<open>databaseURL\<close>, or \<^verbatim>\<open>apiKey\<close> when that is missing too), runs no connection test, stays
  open and hands nothing to \<^verbatim>\<open>onSave\<close>, so the stored credentials are what they were;
  when the user accepts, the configuration with the URL added goes to the connection
  test. A configuration is handed to \<^verbatim>\<open>onSave\<close> only after the user accepted the URL, and
  carries it. The same holds when the text is read by \<^verbatim>\<open>JSON.parse\<close>.
\<close>

theorem declined_url_not_saved:
  "truthy (obj_prop ''projectId'' config) \<and> \<not> truthy (obj_prop ''databaseURL'' config) \<longrightarrow>
     (truthy (obj_prop ''apiKey'' config) \<longrightarrow>
        asked (handleSave (Inr (JObj config)) configJson confirm probe)
          = [''https://'' @ to_str (obj_prop ''projectId'' config) @ ''-default-rtdb.firebaseio.com''])
     \<and> (\<not> confirm (''https://'' @ to_str (obj_prop ''projectId'' config) @ ''-default-rtdb.firebaseio.com'') \<longrightarrow>
          shown (handleSave (Inr (JObj config)) configJson confirm probe)
            = Some (if truthy (obj_prop ''apiKey'' config) then MissingDatabaseURL
                    else MissingFields [''apiKey''])
          \<and> tested (handleSave (Inr (JObj config)) configJson confirm probe) = None
          \<and> saved (handleSave (Inr (JObj config)) configJson confirm probe) = None
          \<and> \<not> closed (handleSave (Inr (JObj config)) configJson confirm probe)
          \<and> credentials_after item (handleSave (Inr (JObj config)) configJson confirm probe) = item)
     \<and> (confirm (''https://'' @ to_str (obj_prop ''projectId'' config) @ ''-default-rtdb.firebaseio.com'')
          \<and> truthy (obj_prop ''apiKey'' config) \<longrightarrow>
          tested (handleSave (Inr (JObj config)) configJson confirm probe)
            = Some (assign ''databaseURL''
                 (JStr (''https://'' @ to_str (obj_prop ''projectId'' config) @ ''-default-rtdb.firebaseio.com''))
                 config))
     \<and> (\<forall>c. saved (handleSave (Inr (JObj config)) configJson confirm probe) = Some c \<longrightarrow>
          confirm (''https://'' @ to_str (obj_prop ''projectId'' config) @ ''-default-rtdb.firebaseio.com'')
          \<and> obj_prop ''databaseURL'' c
              = JStr (''https://'' @ to_str (obj_prop ''projectId'' config) @ ''-default-rtdb.firebaseio.com''))
     \<and> handleSave (Inl e) (JsonText (JObj config)) confirm probe
       = handleSave (Inr (JObj config)) configJson confirm probe"
  by (auto simp: handleSave_def connect_def failed_def Let_def obj_prop_assign credentials_after_def
           split: option.splits)

text \<open>The theorem at a configuration with an API key and the project identifier
  \<^verbatim>\<open>chat-7\<close>, the user declining; and the same configuration with the user accepting and
  the connection test passing.\<close>

theorem declined_url_not_saved_witness:
  "handleSave (Inr (JObj [(''apiKey'', JStr ''AIza''), (''projectId'', JStr ''chat-7'')]))
      BadText (\<lambda>url. False) (\<lambda>config. None)
   = \<lparr>shown = Some MissingDatabaseURL,
      asked = [''https://chat-7-default-rtdb.firebaseio.com''],
      tested = None, saved = None, closed = False\<rparr>
   \<and> credentials_after None
        (handleSave (Inr (JObj [(''apiKey'', JStr ''AIza''), (''projectId'', JStr ''chat-7'')]))
           BadText (\<lambda>url. False) (\<lambda>config. None)) = None
   \<and> saved (handleSave (Inr (JObj [(''apiKey'', JStr ''AIza''), (''projectId'', JStr ''chat-7'')]))
        BadText (\<lambda>url. True) (\<lambda>config. None))
     = Some [(''apiKey'', JStr ''AIza''), (''projectId'', JStr ''chat-7''),
             (''databaseURL'', JStr ''https://chat-7-default-rtdb.firebaseio.com'')]"
proof -
  let ?config = "[(''apiKey'', JStr ''AIza''), (''projectId'', JStr ''chat-7'')]"
  have h: "truthy (obj_prop ''projectId'' ?config) \<and> \<not> truthy (obj_prop ''databaseURL'' ?config)"
    by (simp add: obj_prop_def)
  have k: "truthy (obj_prop ''apiKey'' ?config)"
    by (simp add: obj_prop_def)
  have u: "''https://'' @ to_str (obj_prop ''projectId'' ?config) @ ''-default-rtdb.firebaseio.com''
         = ''https://chat-7-default-rtdb.firebaseio.com''"
    by (simp add: obj_prop_def)
  have d: "\<not> (\<lambda>url. False) (''https://'' @ to_str (obj_prop ''projectId'' ?config) @ ''-default-rtdb.firebaseio.com'')"
    by simp
  note t = declined_url_not_saved[where config = ?config and configJson = BadText
      and confirm = "\<lambda>url. False" and probe = "\<lambda>config. None" and item = None]
  let ?r = "handleSave (Inr (JObj ?config)) BadText (\<lambda>url. False) (\<lambda>config. None)"
  from t h d k have "shown ?r = Some MissingDatabaseURL \<and> tested ?r = None \<and> saved ?r = None
      \<and> \<not> closed ?r
      \<and> asked ?r = [''https://'' @ to_str (obj_prop ''projectId'' ?config) @ ''-default-rtdb.firebaseio.com'']"
    by simp
  then have 1: "?r = \<lparr>shown = Some MissingDatabaseURL,
               asked = [''https://'' @ to_str (obj_prop ''projectId'' ?config) @ ''-default-rtdb.firebaseio.com''],
               tested = None, saved = None, closed = False\<rparr>"
    by (cases ?r) simp
  from t h d have 2: "credentials_after None
        (handleSave (Inr (JObj ?config)) BadText (\<lambda>url. False) (\<lambda>config. None)) = None"
    by blast
  have 3: "saved (handleSave (Inr (JObj ?config)) BadText (\<lambda>url. True) (\<lambda>config. None))
     = Some [(''apiKey'', JStr ''AIza''), (''projectId'', JStr ''chat-7''),
             (''databaseURL'', JStr ''https://chat-7-default-rtdb.firebaseio.com'')]"
    by (simp add: handleSave_def connect_def obj_prop_def Let_def)
  from 1 2 3 show ?thesis unfolding u by simp
qed

end
